theory Spec2Isabelle
  imports Main "HOL-Library.FSet" "HOL-Library.Multiset" "HOL-Library.Word"
begin

section \<open>Values that cross the boundary\<close>

text \<open>
  A string is the list of its code units, each below 256 (the type \<open>char\<close>); its
  length is the length of the list. \<open>trim\<close>, \<open>toUpperCase\<close> and the test
  \<open>/^[A-Z0-9]{6}$/\<close> are the JavaScript operations on such strings.

  A field of a JSON body or of a Socket.IO payload is a \<open>jsval\<close>: the handlers test
  \<open>!x\<close> and \<open>typeof x !== "string"\<close> before they use it, so the non-string cases are
  part of the model. An absent field is \<open>JUndefined\<close>.
\<close>

datatype jsval = JUndefined | JNull | JBool bool | JNum int | JStr string

text \<open>\<open>!x\<close> in JavaScript.\<close>

fun falsy :: "jsval \<Rightarrow> bool" where
  "falsy JUndefined = True"
| "falsy JNull = True"
| "falsy (JBool b) = (\<not> b)"
| "falsy (JNum n) = (n = 0)"
| "falsy (JStr s) = (s = [])"

text \<open>\<open>!x || typeof x !== "string"\<close> is false exactly on a non-empty string.\<close>

fun nonempty_string :: "jsval \<Rightarrow> string option" where
  "nonempty_string (JStr s) = (if s = [] then None else Some s)"
| "nonempty_string _ = None"

text \<open>
  \<open>String.prototype.trim\<close> removes white space and line terminators at both ends; below
  256 these are the code units 9 to 13, 32 and 160 (the no-break space).
\<close>

definition is_ws :: "char \<Rightarrow> bool" where
  "is_ws c =
     (c \<in> set [CHR 0x09, CHR 0x0A, CHR 0x0B, CHR 0x0C, CHR 0x0D, CHR '' '', CHR 0xA0])"

definition trim :: "string \<Rightarrow> string" where
  "trim s = rev (dropWhile is_ws (rev (dropWhile is_ws s)))"

text \<open>
  \<open>String.prototype.toUpperCase\<close>: \<open>a\<close> to \<open>z\<close> and the accented letters 0xE0 to 0xFE
  (without the division sign 0xF7) go to the code unit 32 below; the sharp s 0xDF
  becomes the two letters \<open>SS\<close>. The upper-case forms of the micro sign 0xB5 and of 0xFF
  are code units above 255, which no \<open>char\<close> stands for: the model leaves these two
  as they are. Like their upper-case forms they are outside \<open>A-Z0-9\<close>, and the only
  string the handlers upper-case is a room code, which they test against \<open>A-Z0-9\<close> and
  drop otherwise.
\<close>

definition lower_letters :: string where
  "lower_letters =
     ''abcdefghijklmnopqrstuvwxyz''
     @ [CHR 0xE0, CHR 0xE1, CHR 0xE2, CHR 0xE3, CHR 0xE4, CHR 0xE5, CHR 0xE6, CHR 0xE7,
        CHR 0xE8, CHR 0xE9, CHR 0xEA, CHR 0xEB, CHR 0xEC, CHR 0xED, CHR 0xEE, CHR 0xEF,
        CHR 0xF0, CHR 0xF1, CHR 0xF2, CHR 0xF3, CHR 0xF4, CHR 0xF5, CHR 0xF6, CHR 0xF8,
        CHR 0xF9, CHR 0xFA, CHR 0xFB, CHR 0xFC, CHR 0xFD, CHR 0xFE]"

definition upper_letters :: string where
  "upper_letters =
     ''ABCDEFGHIJKLMNOPQRSTUVWXYZ''
     @ [CHR 0xC0, CHR 0xC1, CHR 0xC2, CHR 0xC3, CHR 0xC4, CHR 0xC5, CHR 0xC6, CHR 0xC7,
        CHR 0xC8, CHR 0xC9, CHR 0xCA, CHR 0xCB, CHR 0xCC, CHR 0xCD, CHR 0xCE, CHR 0xCF,
        CHR 0xD0, CHR 0xD1, CHR 0xD2, CHR 0xD3, CHR 0xD4, CHR 0xD5, CHR 0xD6, CHR 0xD8,
        CHR 0xD9, CHR 0xDA, CHR 0xDB, CHR 0xDC, CHR 0xDD, CHR 0xDE]"

definition upper_char :: "char \<Rightarrow> char" where
  "upper_char c = (case map_of (zip lower_letters upper_letters) c of Some u \<Rightarrow> u | None \<Rightarrow> c)"

definition toUpperCase :: "string \<Rightarrow> string" where
  "toUpperCase s = concat (map (\<lambda>c. if c = CHR 0xDF then ''SS'' else [upper_char c]) s)"

definition is_code_char :: "char \<Rightarrow> bool" where
  "is_code_char c = (c \<in> set ''ABCDEFGHIJKLMNOPQRSTUVWXYZ0123456789'')"

text \<open>\<open>/^[A-Z0-9]{6}$/.test(code)\<close>\<close>

definition code_ok :: "string \<Rightarrow> bool" where
  "code_ok code = (length code = 6 \<and> list_all is_code_char code)"

text \<open>\<open>roomCode.trim().toUpperCase().slice(0, 6)\<close>\<close>

definition normalise_code :: "string \<Rightarrow> string" where
  "normalise_code roomCode = take 6 (toUpperCase (trim roomCode))"


section \<open>The store: \<open>schema.sql\<close>, \<open>models/Room.js\<close>, \<open>models/Message.js\<close>\<close>

text \<open>
  Instants of the JavaScript clock (\<open>new Date()\<close>) are milliseconds since the epoch. A
  \<open>DATETIME\<close> column holds a wall-clock time without zone, to the second; it is modelled
  as the number of seconds that wall-clock time denotes when read as UTC.
  \<open>createRoom\<close> writes the column from \<open>toISOString()\<close>, that is in UTC, so the
  instant the column stands for is \<open>Date_of_utc\<close> of it.
\<close>

datatype room_type = Single | Group

record room =
  id_r :: nat
  room_code :: string
  type_r :: room_type
  created_at :: int
  expires_at :: int
  is_active :: bool

record message =
  id_m :: nat
  room_id :: nat
  nickname_m :: string
  content_m :: string
  iv_m :: string
  sent_at :: int

text \<open>
  Every \<open>db.execute\<close> may reject: \<open>failing\<close> says which statements the store refuses
  (an unreachable or erroring database). \<open>session_tz\<close> is the offset in seconds of the
  time zone in which the database session evaluates \<open>NOW()\<close> and
  \<open>CURRENT_TIMESTAMP\<close>; the pool option \<open>timezone: 'Z'\<close> of \<open>config/db.js\<close> tells the
  driver how to convert values and does not set it.
\<close>

datatype db_op =
    OpRoomCreate | OpFindByCode | OpFindExpired | OpDeleteById nat
  | OpMessageCreate | OpFindByRoomId

datatype error =
    DbError | DuplicateEntry | ForeignKeyViolation | DataTooLong
  | GenerationExhausted | RangeError

record store =
  rooms :: "room list"
  messages :: "message list"
  next_room_id :: nat
  next_message_id :: nat
  session_tz :: int
  failing :: "db_op \<Rightarrow> bool"

definition Date_of_utc :: "int \<Rightarrow> int" where
  "Date_of_utc seconds = 1000 * seconds"

text \<open>
  \<open>new Date(room.expires_at + "Z")\<close>, the expression of \<open>joinRoom\<close> and of
  \<open>chat:join\<close>. The pool of \<open>config/db.js\<close> sets no \<open>dateStrings\<close>, so the driver
  hands \<open>expires_at\<close> over as a \<open>Date\<close> (of the right instant, by \<open>timezone: 'Z'\<close>).
  \<open>+ "Z"\<close> turns it into a string with \<open>Date.prototype.toString\<close>, which prints the
  wall-clock time of the zone of the Node process, and appends \<open>Z\<close>; parsed again, the
  final \<open>Z\<close> makes that wall-clock time a UTC time. The result is the instant of the
  column moved by the offset of the process zone, \<open>node_tz\<close> seconds east of UTC.
\<close>

definition Date_of_row :: "int \<Rightarrow> int \<Rightarrow> int" where
  "Date_of_row node_tz seconds = 1000 * (seconds + node_tz)"

text \<open>\<open>NOW()\<close>, when the JavaScript clock reads \<open>now\<close>.\<close>

definition NOW :: "store \<Rightarrow> int \<Rightarrow> int" where
  "NOW db now = now div 1000 + session_tz db"

text \<open>
  \<open>INSERT INTO rooms (room_code, type, expires_at)\<close>: \<open>uq_room_code\<close> rejects a code
  that any row has, active or not; \<open>id\<close> is auto-increment, \<open>created_at\<close> and
  \<open>is_active\<close> take their defaults.
\<close>

definition Room_create :: "store \<Rightarrow> int \<Rightarrow> string \<Rightarrow> room_type \<Rightarrow> int \<Rightarrow> error + room \<times> store" where
  "Room_create db now roomCode type expiresAt =
     (if failing db OpRoomCreate then Inl DbError
      else if roomCode \<in> set (map room_code (rooms db)) then Inl DuplicateEntry
      else
        let r = \<lparr>id_r = next_room_id db, room_code = roomCode, type_r = type,
                 created_at = NOW db now, expires_at = expiresAt, is_active = True\<rparr>
        in Inr (r, db\<lparr>rooms := rooms db @ [r], next_room_id := Suc (next_room_id db)\<rparr>))"

text \<open>\<open>WHERE room_code = ? AND is_active = 1 LIMIT 1\<close>, then \<open>rows[0] || null\<close>.\<close>

definition Room_findByCode :: "store \<Rightarrow> string \<Rightarrow> error + room option" where
  "Room_findByCode db roomCode =
     (if failing db OpFindByCode then Inl DbError
      else Inr (find (\<lambda>r. room_code r = roomCode \<and> is_active r) (rooms db)))"

text \<open>\<open>WHERE expires_at <= NOW() AND is_active = 1\<close>\<close>

definition Room_findExpired :: "store \<Rightarrow> int \<Rightarrow> error + room list" where
  "Room_findExpired db now =
     (if failing db OpFindExpired then Inl DbError
      else Inr (filter (\<lambda>r. expires_at r \<le> NOW db now \<and> is_active r) (rooms db)))"

text \<open>
  \<open>DELETE FROM rooms WHERE id = ?\<close>; \<open>fk_messages_room\<close> is \<open>ON DELETE CASCADE\<close>, so the
  messages of the room go in the same statement. Deleting an id that no row has deletes
  nothing and succeeds.
\<close>

definition Room_deleteById :: "store \<Rightarrow> nat \<Rightarrow> error + store" where
  "Room_deleteById db roomId =
     (if failing db (OpDeleteById roomId) then Inl DbError
      else Inr (db\<lparr>rooms := filter (\<lambda>r. id_r r \<noteq> roomId) (rooms db),
                   messages := filter (\<lambda>m. room_id m \<noteq> roomId) (messages db)\<rparr>))"

text \<open>
  \<open>INSERT INTO messages (room_id, nickname, content, iv)\<close>: the foreign key needs a
  room row with that id; \<open>nickname\<close> is \<open>VARCHAR(32)\<close>, \<open>iv\<close> is \<open>VARCHAR(64)\<close>,
  \<open>content\<close> is \<open>TEXT\<close> (65535 bytes), and a longer value is refused (strict SQL
  mode). \<open>sent_at\<close> defaults to \<open>CURRENT_TIMESTAMP\<close>. Returns \<open>insertId\<close>.
\<close>

definition Message_create :: "store \<Rightarrow> int \<Rightarrow> nat \<Rightarrow> string \<Rightarrow> string \<Rightarrow> string \<Rightarrow> error + nat \<times> store" where
  "Message_create db now roomId nickname content iv =
     (if failing db OpMessageCreate then Inl DbError
      else if roomId \<notin> set (map id_r (rooms db)) then Inl ForeignKeyViolation
      else if length nickname > 32 \<or> length iv > 64 \<or> length content > 65535 then Inl DataTooLong
      else
        let m = \<lparr>id_m = next_message_id db, room_id = roomId, nickname_m = nickname,
                 content_m = content, iv_m = iv, sent_at = NOW db now\<rparr>
        in Inr (id_m m, db\<lparr>messages := messages db @ [m],
                            next_message_id := Suc (next_message_id db)\<rparr>))"

text \<open>
  \<open>SELECT ... FROM messages WHERE room_id = ? ORDER BY sent_at ASC\<close>: the rows of the
  room, in an order in which \<open>sent_at\<close> does not decrease. SQL leaves the order of rows
  with equal \<open>sent_at\<close> to the engine, so the query is a relation between the store and
  the row lists it may answer with.
\<close>

definition Message_findByRoomId :: "store \<Rightarrow> nat \<Rightarrow> message list \<Rightarrow> bool" where
  "Message_findByRoomId db roomId rows =
     (mset rows = mset (filter (\<lambda>m. room_id m = roomId) (messages db))
      \<and> sorted (map sent_at rows))"


section \<open>\<open>controllers/roomController.js\<close>: the join pre-check\<close>

datatype body = Error string | RoomInfo string room_type int

record response =
  status :: nat
  json :: body

definition joinRoom :: "int \<Rightarrow> store \<Rightarrow> int \<Rightarrow> jsval \<Rightarrow> response \<times> store" where
  "joinRoom node_tz db now roomCode =
     (case nonempty_string roomCode of
        None \<Rightarrow> (\<lparr>status = 400, json = Error ''roomCode is required.''\<rparr>, db)
      | Some rc \<Rightarrow>
          let code = normalise_code rc in
          if \<not> code_ok code then
            (\<lparr>status = 400,
              json = Error ''Room code must be 6 uppercase alphanumeric characters.''\<rparr>, db)
          else
            (case Room_findByCode db code of
               Inl e \<Rightarrow> (\<lparr>status = 500, json = Error ''Server error joining room.''\<rparr>, db)
             | Inr None \<Rightarrow>
                 (\<lparr>status = 404,
                   json = Error ''Room not found. It may have expired or never existed.''\<rparr>, db)
             | Inr (Some room) \<Rightarrow>
                 if now \<ge> Date_of_row node_tz (expires_at room) then
                   (case Room_deleteById db (id_r room) of
                      Inl e \<Rightarrow>
                        (\<lparr>status = 500, json = Error ''Server error joining room.''\<rparr>, db)
                    | Inr db' \<Rightarrow>
                        (\<lparr>status = 410,
                          json = Error ''This session has expired and all messages have been permanently deleted.''\<rparr>,
                         db'))
                 else
                   (\<lparr>status = 200,
                     json = RoomInfo (room_code room) (type_r room) (expires_at room)\<rparr>, db)))"


section \<open>\<open>controllers/roomController.js\<close>: code generation and room creation\<close>

text \<open>
  \<open>crypto.randomBytes(LENGTH)\<close> is the input \<open>rnd\<close>: \<open>rnd attempt i\<close> is byte \<open>i\<close> of
  the buffer drawn in iteration \<open>attempt\<close>.
\<close>

definition CHARS :: string where
  "CHARS = ''ABCDEFGHIJKLMNOPQRSTUVWXYZ0123456789''"

definition draw_code :: "(nat \<Rightarrow> 8 word) \<Rightarrow> string" where
  "draw_code bytes = map (\<lambda>i. CHARS ! (unat (bytes i) mod length CHARS)) [0, 1, 2, 3, 4, 5]"

text \<open>
  The loop \<open>for (let attempt = 0; attempt < 5; attempt++)\<close>, entered with the loop
  variable at \<open>attempt\<close>. \<open>looked\<close> lists the codes for which \<open>Room.findByCode\<close> was
  queried so far, oldest first. The result is what the function returns or throws, paired
  with the queries made when it does.
\<close>

function generateUniqueCode_from ::
  "store \<Rightarrow> (nat \<Rightarrow> nat \<Rightarrow> 8 word) \<Rightarrow> nat \<Rightarrow> string list \<Rightarrow> (error + string) \<times> string list" where
  "generateUniqueCode_from db rnd attempt looked =
     (if attempt < 5 then
        let code = draw_code (rnd attempt) in
        (case Room_findByCode db code of
           Inl e \<Rightarrow> (Inl e, looked @ [code])
         | Inr None \<Rightarrow> (Inr code, looked @ [code])
         | Inr (Some existing) \<Rightarrow> generateUniqueCode_from db rnd (Suc attempt) (looked @ [code]))
      else (Inl GenerationExhausted, looked))"
  by pat_completeness auto
termination
  by (relation "measure (\<lambda>(db, rnd, attempt, looked). 5 - attempt)") auto

declare generateUniqueCode_from.simps [simp del]

definition generateUniqueCode ::
  "store \<Rightarrow> (nat \<Rightarrow> nat \<Rightarrow> 8 word) \<Rightarrow> (error + string) \<times> string list" where
  "generateUniqueCode db rnd = generateUniqueCode_from db rnd 0 []"

text \<open>
  \<open>new Date(v)\<close> as milliseconds, \<open>None\<close> for an invalid date. Parsing a string is the
  parameter \<open>parse\<close>. \<open>iso_seconds\<close> is
  \<open>.toISOString().slice(0, 19).replace("T", " ")\<close>, the UTC wall-clock time to the
  second (for years 0000 to 9999, where the ISO string has that shape).
\<close>

definition new_Date :: "(string \<Rightarrow> int option) \<Rightarrow> jsval \<Rightarrow> int option" where
  "new_Date parse v =
     (case v of
        JStr s \<Rightarrow> parse s
      | JNum n \<Rightarrow> (if \<bar>n\<bar> \<le> 8640000000000000 then Some n else None)
      | JBool b \<Rightarrow> Some (if b then 1 else 0)
      | JNull \<Rightarrow> Some 0
      | JUndefined \<Rightarrow> None)"

definition iso_seconds :: "int \<Rightarrow> int" where
  "iso_seconds t = t div 1000"

definition bad_request :: "string \<Rightarrow> response" where
  "bad_request reason = \<lparr>status = 400, json = Error reason\<rparr>"

text \<open>
  The \<open>switch (expiryType)\<close> of \<open>createRoom\<close>: \<open>Inl\<close> is an exception, \<open>Inr (Inl r)\<close> an
  early \<open>return\<close> of the response \<open>r\<close>, \<open>Inr (Inr e)\<close> the computed \<open>expiresAt\<close>. In the
  \<open>custom\<close> case \<open>expiresAt\<close> is computed first: \<open>toISOString()\<close> of an invalid date
  throws a \<open>RangeError\<close>, so the \<open>isNaN\<close> test that follows it is only reached with a
  valid date, where it is false.
\<close>

definition compute_expiry ::
  "(string \<Rightarrow> int option) \<Rightarrow> int \<Rightarrow> jsval \<Rightarrow> jsval \<Rightarrow> error + response + int" where
  "compute_expiry parse now expiryType customExpiry =
     (if expiryType = JStr ''10m'' then Inr (Inr (iso_seconds (now + 10 * 60 * 1000)))
      else if expiryType = JStr ''1h'' then Inr (Inr (iso_seconds (now + 60 * 60 * 1000)))
      else if expiryType = JStr ''24h'' then Inr (Inr (iso_seconds (now + 24 * 60 * 60 * 1000)))
      else if expiryType = JStr ''custom'' then
        (if falsy customExpiry then
           Inr (Inl (bad_request ''customExpiry datetime required when expiryType is custom.''))
         else
           (case new_Date parse customExpiry of
              None \<Rightarrow> Inl RangeError
            | Some t \<Rightarrow>
                if t \<le> now then
                  Inr (Inl (bad_request ''customExpiry must be in the future.''))
                else if t > now + 30 * 24 * 60 * 60 * 1000 then
                  Inr (Inl (bad_request ''customExpiry cannot be more than 30 days in the future.''))
                else Inr (Inr (iso_seconds t))))
      else Inr (Inl (bad_request ''Invalid expiryType.'')))"

fun room_type_of :: "jsval \<Rightarrow> room_type option" where
  "room_type_of (JStr s) =
     (if s = ''single'' then Some Single else if s = ''group'' then Some Group else None)"
| "room_type_of _ = None"

definition server_error_creating :: response where
  "server_error_creating = \<lparr>status = 500, json = Error ''Server error creating room.''\<rparr>"

definition createRoom ::
  "(string \<Rightarrow> int option) \<Rightarrow> (nat \<Rightarrow> nat \<Rightarrow> 8 word) \<Rightarrow> store \<Rightarrow> int
     \<Rightarrow> jsval \<Rightarrow> jsval \<Rightarrow> jsval \<Rightarrow> response \<times> store" where
  "createRoom parse rnd db now type expiryType customExpiry =
     (case room_type_of type of
        None \<Rightarrow> (bad_request ''Invalid room type. Must be single or group.'', db)
      | Some ty \<Rightarrow>
          (case compute_expiry parse now expiryType customExpiry of
             Inl e \<Rightarrow> (server_error_creating, db)
           | Inr (Inl early) \<Rightarrow> (early, db)
           | Inr (Inr expiresAt) \<Rightarrow>
               (case fst (generateUniqueCode db rnd) of
                  Inl e \<Rightarrow> (server_error_creating, db)
                | Inr roomCode \<Rightarrow>
                    (case Room_create db now roomCode ty expiresAt of
                       Inl e \<Rightarrow> (server_error_creating, db)
                     | Inr (room, db') \<Rightarrow>
                         (\<lparr>status = 201,
                           json = RoomInfo (room_code room) (type_r room) (expires_at room)\<rparr>,
                          db')))))"


section \<open>\<open>server.js\<close>: sessions, the participant map and the realtime handlers\<close>

text \<open>
  A socket is named by its id. \<open>sockets\<close> holds the three fields the handlers keep on
  the socket object; \<open>roomParticipants\<close> is the \<open>Map<roomCode, Set<socketId>>\<close> of
  \<open>server.js\<close>; \<open>channels\<close> is the Socket.IO room membership (\<open>socket.join\<close>,
  \<open>socket.leave\<close>); \<open>delivered s\<close> lists the events emitted to socket \<open>s\<close>, oldest
  first. Each handler runs as one step on this state, and the xss filter of the
  \<open>xss\<close> package is the parameter \<open>xss\<close>.
\<close>

type_synonym sid = string

datatype event =
    ErrorRoom string
  | RoomExpired string
  | ChatHistory "message list"
  | ChatSystem string int
  | ChatJoined string room_type int string
  | ChatMessage nat string string string int

record socket =
  currentRoom :: "string option"
  nickname :: "string option"
  roomId :: "nat option"

record server =
  db :: store
  roomParticipants :: "string \<Rightarrow> sid fset option"
  channels :: "string \<Rightarrow> sid fset"
  sockets :: "sid \<Rightarrow> socket"
  delivered :: "sid \<Rightarrow> event list"

definition fresh_socket :: socket where
  "fresh_socket = \<lparr>currentRoom = None, nickname = None, roomId = None\<rparr>"

text \<open>\<open>socket.emit\<close>, \<open>io.to(code).emit\<close> and \<open>socket.to(code).emit\<close>.\<close>

definition emit_socket :: "server \<Rightarrow> sid \<Rightarrow> event \<Rightarrow> server" where
  "emit_socket st s ev = st\<lparr>delivered := (delivered st)(s := delivered st s @ [ev])\<rparr>"

definition emit_room :: "server \<Rightarrow> string \<Rightarrow> event \<Rightarrow> server" where
  "emit_room st code ev =
     st\<lparr>delivered := (\<lambda>s. if s |\<in>| channels st code then delivered st s @ [ev]
                           else delivered st s)\<rparr>"

definition emit_others :: "server \<Rightarrow> sid \<Rightarrow> string \<Rightarrow> event \<Rightarrow> server" where
  "emit_others st self code ev =
     st\<lparr>delivered := (\<lambda>s. if s \<noteq> self \<and> s |\<in>| channels st code then delivered st s @ [ev]
                           else delivered st s)\<rparr>"

definition participants_of :: "server \<Rightarrow> string \<Rightarrow> sid fset" where
  "participants_of st code = (case roomParticipants st code of Some ps \<Rightarrow> ps | None \<Rightarrow> {||})"

definition join_failed :: event where
  "join_failed = ErrorRoom ''Failed to join room.''"

definition room_full :: event where
  "room_full = ErrorRoom ''This private room is full (max 2 users).''"

text \<open>
  \<open>chat:join\<close>. \<open>history\<close> is the answer of the store to \<open>Message.findByRoomId(room.id)\<close>
  (a list that \<open>Message_findByRoomId\<close> admits), used unless that query is refused.
\<close>

definition chat_join ::
  "(string \<Rightarrow> string) \<Rightarrow> int \<Rightarrow> server \<Rightarrow> int \<Rightarrow> sid \<Rightarrow> jsval \<Rightarrow> jsval \<Rightarrow> message list
     \<Rightarrow> server" where
  "chat_join xss node_tz st now s roomCode nick history =
     (case (nonempty_string roomCode, nonempty_string nick) of
        (Some rc, Some nk) \<Rightarrow>
          let code = xss (normalise_code rc);
              cleanNick = xss (take 32 (trim nk))
          in
          if \<not> code_ok code then st
          else if cleanNick = [] then st
          else
            (case Room_findByCode (db st) code of
               Inl e \<Rightarrow> emit_socket st s join_failed
             | Inr None \<Rightarrow> emit_socket st s (ErrorRoom ''Room not found or expired.'')
             | Inr (Some room) \<Rightarrow>
                 if now \<ge> Date_of_row node_tz (expires_at room) then
                   (case Room_deleteById (db st) (id_r room) of
                      Inl e \<Rightarrow> emit_socket st s join_failed
                    | Inr db' \<Rightarrow>
                        emit_socket (st\<lparr>db := db'\<rparr>) s (RoomExpired ''Room has expired.''))
                 else if type_r room = Single
                         \<and> fcard (participants_of st code) \<ge> 2
                         \<and> s |\<notin>| participants_of st code then
                   emit_socket st s room_full
                 else
                   let st1 = st\<lparr>channels := (channels st)(code := finsert s (channels st code)),
                                 sockets := (sockets st)(s :=
                                   \<lparr>currentRoom = Some code, nickname = Some cleanNick,
                                    roomId = Some (id_r room)\<rparr>),
                                 roomParticipants := (roomParticipants st)(code \<mapsto>
                                   finsert s (participants_of st code))\<rparr>
                   in
                   if failing (db st) OpFindByRoomId then emit_socket st1 s join_failed
                   else
                     emit_socket
                       (emit_others
                          (emit_socket st1 s (ChatHistory history))
                          s code (ChatSystem (cleanNick @ '' joined the room.'') now))
                       s (ChatJoined code (type_r room) (expires_at room) cleanNick))
      | _ \<Rightarrow> st)"

text \<open>
  \<open>chat:message\<close>. The handler destructures \<open>content\<close> and \<open>iv\<close> from the payload; whatever
  else the client put into the payload is \<open>extra\<close>.
\<close>

record payload =
  content :: jsval
  iv :: jsval
  extra :: "(string \<times> jsval) list"

fun present :: "string option \<Rightarrow> bool" where
  "present None = False"
| "present (Some s) = (s \<noteq> [])"

definition chat_message ::
  "(string \<Rightarrow> string) \<Rightarrow> server \<Rightarrow> int \<Rightarrow> sid \<Rightarrow> payload \<Rightarrow> server" where
  "chat_message xss st now s p =
     (if \<not> present (currentRoom (sockets st s)) \<or> \<not> present (nickname (sockets st s)) then st
      else
        (case (nonempty_string (content p), nonempty_string (iv p)) of
           (Some c, Some i) \<Rightarrow>
             if length c > 65536 then st
             else
               let cleanContent = xss (trim c);
                   cleanIv = xss (trim i)
               in
               (case (currentRoom (sockets st s), nickname (sockets st s)) of
                  (Some code, Some nk) \<Rightarrow>
                    (case Room_findByCode (db st) code of
                       Inl e \<Rightarrow> st
                     | Inr None \<Rightarrow> emit_socket st s (RoomExpired ''Room no longer exists.'')
                     | Inr (Some room) \<Rightarrow>
                         (case roomId (sockets st s) of
                            None \<Rightarrow> st
                          | Some rid \<Rightarrow>
                              (case Message_create (db st) now rid nk cleanContent cleanIv of
                                 Inl e \<Rightarrow> st
                               | Inr (msgId, db') \<Rightarrow>
                                   emit_room (st\<lparr>db := db'\<rparr>) code
                                     (ChatMessage msgId nk cleanContent cleanIv now))))
                | _ \<Rightarrow> st)
         | _ \<Rightarrow> st))"

text \<open>
  \<open>disconnect\<close>. Socket.IO has taken the closing socket out of every channel when the
  handler runs, and the socket object is gone afterwards.
\<close>

definition disconnect :: "server \<Rightarrow> int \<Rightarrow> sid \<Rightarrow> server" where
  "disconnect st now s =
     (let sock = sockets st s;
          st0 = st\<lparr>channels := (\<lambda>c. channels st c |-| {|s|}),
                    sockets := (sockets st)(s := fresh_socket)\<rparr>
      in
      (case currentRoom sock of
         None \<Rightarrow> st0
       | Some code \<Rightarrow>
           if code = [] then st0
           else
             let st1 =
               (case roomParticipants st0 code of
                  None \<Rightarrow> st0
                | Some ps \<Rightarrow>
                    if ps |-| {|s|} = {||}
                    then st0\<lparr>roomParticipants := (roomParticipants st0)(code := None)\<rparr>
                    else st0\<lparr>roomParticipants := (roomParticipants st0)(code \<mapsto> ps |-| {|s|})\<rparr>)
             in
             if present (nickname sock) then
               emit_others st1 s code
                 (ChatSystem (case nickname sock of Some nk \<Rightarrow> nk @ '' left the room.'' | None \<Rightarrow> [])
                    now)
             else st1))"


section \<open>\<open>services/cleanupService.js\<close>: the sweep\<close>

definition session_expired :: event where
  "session_expired =
     RoomExpired ''This session has expired. All messages have been permanently deleted.''"

text \<open>
  Steps 1 and 2 of the body of \<open>for (const room of expiredRooms)\<close>: emit
  \<open>room:expired\<close> to the channel of the room, then make every socket of the channel
  leave it.
\<close>

definition notify_and_detach :: "server \<Rightarrow> room \<Rightarrow> server" where
  "notify_and_detach st room =
     (let st1 = emit_room st (room_code room) session_expired
      in st1\<lparr>channels := (channels st1)(room_code room := {||})\<rparr>)"

text \<open>
  The loop: after steps 1 and 2, step 3 deletes the room. An exception of
  \<open>Room.deleteById\<close> leaves the loop for the \<open>catch\<close> around it, which logs; what was
  done before the exception stays done.
\<close>

fun sweep_rooms :: "server \<Rightarrow> room list \<Rightarrow> server" where
  "sweep_rooms st [] = st"
| "sweep_rooms st (room # rest) =
     (let st2 = notify_and_detach st room
      in
      (case Room_deleteById (db st2) (id_r room) of
         Inl e \<Rightarrow> st2
       | Inr db' \<Rightarrow> sweep_rooms (st2\<lparr>db := db'\<rparr>) rest))"

text \<open>One firing of the interval callback of \<open>startCleanup\<close>.\<close>

definition cleanup_tick :: "server \<Rightarrow> int \<Rightarrow> server" where
  "cleanup_tick st now =
     (case Room_findExpired (db st) now of
        Inl e \<Rightarrow> st
      | Inr expiredRooms \<Rightarrow> sweep_rooms st expiredRooms)"


section \<open>The liveness verdict of each call site\<close>

text \<open>
  The reference predicate, in the words of the specification: a room is expired iff
  \<open>now >= expiresAt\<close>, both read as UTC instants.
\<close>

definition isAlive_spec :: "int \<Rightarrow> int \<Rightarrow> bool" where
  "isAlive_spec expiresAt now = (\<not> now \<ge> expiresAt)"

text \<open>
  What each of the three call sites decides, read off its observable behaviour: the
  pre-check answers 410, \<open>chat:join\<close> emits \<open>room:expired\<close>, the query of the sweeper
  returns the room.
\<close>

definition http_verdict_expired :: "int \<Rightarrow> store \<Rightarrow> int \<Rightarrow> string \<Rightarrow> bool" where
  "http_verdict_expired node_tz d now code =
     (status (fst (joinRoom node_tz d now (JStr code))) = 410)"

definition realtime_verdict_expired ::
  "(string \<Rightarrow> string) \<Rightarrow> int \<Rightarrow> server \<Rightarrow> int \<Rightarrow> sid \<Rightarrow> string \<Rightarrow> string \<Rightarrow> message list
     \<Rightarrow> bool" where
  "realtime_verdict_expired xss node_tz st now s code nk history =
     (delivered (chat_join xss node_tz st now s (JStr code) (JStr nk) history) s
        = delivered st s @ [RoomExpired ''Room has expired.''])"

definition sweeper_verdict_expired :: "store \<Rightarrow> int \<Rightarrow> room \<Rightarrow> bool" where
  "sweeper_verdict_expired d now r =
     (case Room_findExpired d now of Inl e \<Rightarrow> False | Inr rows \<Rightarrow> r \<in> set rows)"


section \<open>Capacity of single-kind rooms\<close>

text \<open>
  The bound: room codes are unique in the store (\<open>uq_room_code\<close>), and the participant
  set of the code of every single-kind room has at most 2 members.
\<close>

definition capacity_inv :: "server \<Rightarrow> bool" where
  "capacity_inv st =
     (distinct (map room_code (rooms (db st)))
      \<and> list_all (\<lambda>r. type_r r = Single \<longrightarrow> fcard (participants_of st (room_code r)) \<le> 2)
           (rooms (db st)))"

text \<open>
  A \<open>chat:join\<close> request that passes validation and finds the room \<open>room\<close> alive:
  \<open>code\<close> and \<open>cleanNick\<close> are the values the handler computes.
\<close>

definition join_reaches_room ::
  "(string \<Rightarrow> string) \<Rightarrow> int \<Rightarrow> server \<Rightarrow> int \<Rightarrow> jsval \<Rightarrow> jsval \<Rightarrow> string \<Rightarrow> string \<Rightarrow> room
     \<Rightarrow> bool" where
  "join_reaches_room xss node_tz st now roomCode nick code cleanNick room =
     (case (nonempty_string roomCode, nonempty_string nick) of
        (Some rc, Some nk) \<Rightarrow>
          code = xss (normalise_code rc) \<and> code_ok code
          \<and> cleanNick = xss (take 32 (trim nk)) \<and> cleanNick \<noteq> []
          \<and> Room_findByCode (db st) code = Inr (Some room)
          \<and> \<not> now \<ge> Date_of_row node_tz (expires_at room)
          \<and> \<not> failing (db st) OpFindByRoomId
      | _ \<Rightarrow> False)"


section \<open>Broadcast events\<close>

text \<open>The \<open>chat:message\<close> event that the handler broadcasts for a stored message.\<close>

definition event_of :: "message \<Rightarrow> int \<Rightarrow> event" where
  "event_of m ts = ChatMessage (id_m m) (nickname_m m) (content_m m) (iv_m m) ts"


section \<open>Sample data\<close>

text \<open>An xss filter that leaves its input as it is, as the filter does on plain text.\<close>

definition no_filter :: "string \<Rightarrow> string" where
  "no_filter s = s"

text \<open>A random source whose every byte is 0, so that every draw spells \<open>AAAAAA\<close>.\<close>

definition rnd_zero :: "nat \<Rightarrow> nat \<Rightarrow> 8 word" where
  "rnd_zero attempt i = 0"

definition room_a :: room where
  "room_a = \<lparr>id_r = 1, room_code = ''AB12CD'', type_r = Single, created_at = 0,
             expires_at = 7200, is_active = True\<rparr>"

definition room_b :: room where
  "room_b = \<lparr>id_r = 2, room_code = ''ZZ99ZZ'', type_r = Group, created_at = 0,
             expires_at = 7200, is_active = True\<rparr>"

definition msg_a :: message where
  "msg_a = \<lparr>id_m = 1, room_id = 1, nickname_m = ''ann'', content_m = ''c1'', iv_m = ''i1'',
            sent_at = 10\<rparr>"

definition store_utc :: store where
  "store_utc = \<lparr>rooms = [room_a, room_b], messages = [msg_a], next_room_id = 3,
                next_message_id = 2, session_tz = 0, failing = (\<lambda>op. False)\<rparr>"

text \<open>The same store, with the database session one hour east of UTC.\<close>

definition store_east :: store where
  "store_east = store_utc\<lparr>session_tz := 3600\<rparr>"

definition sock_ann :: socket where
  "sock_ann = \<lparr>currentRoom = Some ''AB12CD'', nickname = Some ''ann'', roomId = Some 1\<rparr>"

definition sock_bob :: socket where
  "sock_bob = \<lparr>currentRoom = Some ''AB12CD'', nickname = Some ''bob'', roomId = Some 1\<rparr>"

text \<open>Two sessions, \<open>s1\<close> and \<open>s2\<close>, joined to the single-kind room \<open>AB12CD\<close>.\<close>

definition server_two :: server where
  "server_two =
     \<lparr>db = store_utc,
      roomParticipants = (\<lambda>c. if c = ''AB12CD'' then Some {|''s1'', ''s2''|} else None),
      channels = (\<lambda>c. if c = ''AB12CD'' then {|''s1'', ''s2''|} else {||}),
      sockets = (\<lambda>s. if s = ''s1'' then sock_ann else if s = ''s2'' then sock_bob
                      else fresh_socket),
      delivered = (\<lambda>s. [])\<rparr>"

text \<open>
  A random source whose first \<open>k\<close> draws spell \<open>AB12CD\<close> and whose later draws spell
  \<open>AAAAAA\<close>.
\<close>

definition rnd_collide :: "nat \<Rightarrow> nat \<Rightarrow> nat \<Rightarrow> 8 word" where
  "rnd_collide k attempt i = (if attempt < k then [0, 1, 27, 28, 2, 3] ! i else 0)"

text \<open>A date parser that knows one string, 1 January 2030 00:00:00 UTC.\<close>

definition parse_one :: "string \<Rightarrow> int option" where
  "parse_one s = (if s = ''2030-01-01T00:00:00Z'' then Some 1893456000000 else None)"

definition payload_xy :: payload where
  "payload_xy = \<lparr>content = JStr ''x'', iv = JStr ''y'', extra = []\<rparr>"

text \<open>The payload \<open>payload_xy\<close> with a forged \<open>nickname\<close> field added.\<close>

definition payload_forged :: payload where
  "payload_forged = \<lparr>content = JStr ''x'', iv = JStr ''y'',
                      extra = [(''nickname'', JStr ''mallory'')]\<rparr>"



definition msg_x :: message where
  "msg_x = \<lparr>id_m = 2, room_id = 1, nickname_m = ''ann'', content_m = ''x'', iv_m = ''y'',
            sent_at = 8000\<rparr>"


text \<open>
  The sample server with a third session \<open>s3\<close> in the channel of the group room
  \<open>ZZ99ZZ\<close>, and a store that refuses to delete room 1.
\<close>

definition server_faulty :: server where
  "server_faulty =
     server_two\<lparr>db := store_utc\<lparr>failing := (\<lambda>op. op = OpDeleteById 1)\<rparr>,
                 channels := (\<lambda>c. if c = ''AB12CD'' then {|''s1'', ''s2''|}
                                   else if c = ''ZZ99ZZ'' then {|''s3''|} else {||})\<rparr>"

text \<open>
  A server with three expired rooms, \<open>AB12CD\<close>, \<open>ZZ99ZZ\<close> and \<open>QQ77QQ\<close>, one session
  in the channel of each, and a store that refuses to delete room 2.
\<close>

definition room_c :: room where
  "room_c = \<lparr>id_r = 3, room_code = ''QQ77QQ'', type_r = Group, created_at = 0,
             expires_at = 7200, is_active = True\<rparr>"

definition server_three :: server where
  "server_three =
     \<lparr>db = \<lparr>rooms = [room_a, room_b, room_c], messages = [msg_a], next_room_id = 4,
             next_message_id = 2, session_tz = 0, failing = (\<lambda>op. op = OpDeleteById 2)\<rparr>,
      roomParticipants = (\<lambda>c. None),
      channels = (\<lambda>c. if c = ''AB12CD'' then {|''s1''|}
                        else if c = ''ZZ99ZZ'' then {|''s2''|}
                        else if c = ''QQ77QQ'' then {|''s3''|} else {||}),
      sockets = (\<lambda>s. fresh_socket),
      delivered = (\<lambda>s. [])\<rparr>"

text \<open>
  Two sessions, \<open>s1\<close> (\<open>ann\<close>) and \<open>s2\<close> (\<open>bob\<close>), joined to the group room \<open>ZZ99ZZ\<close>
  (room 2), which has no message yet.
\<close>

definition server_group :: server where
  "server_group =
     \<lparr>db = store_utc,
      roomParticipants = (\<lambda>c. if c = ''ZZ99ZZ'' then Some {|''s1'', ''s2''|} else None),
      channels = (\<lambda>c. if c = ''ZZ99ZZ'' then {|''s1'', ''s2''|} else {||}),
      sockets = (\<lambda>s. if s = ''s1''
                        then \<lparr>currentRoom = Some ''ZZ99ZZ'', nickname = Some ''ann'', roomId = Some 2\<rparr>
                      else if s = ''s2''
                        then \<lparr>currentRoom = Some ''ZZ99ZZ'', nickname = Some ''bob'', roomId = Some 2\<rparr>
                      else fresh_socket),
      delivered = (\<lambda>s. [])\<rparr>"

definition payload_of :: "string \<Rightarrow> payload" where
  "payload_of c = \<lparr>content = JStr c, iv = JStr ''v'', extra = []\<rparr>"

definition sample_msg :: "nat \<Rightarrow> string \<Rightarrow> string \<Rightarrow> int \<Rightarrow> message" where
  "sample_msg i nk c t =
     \<lparr>id_m = i, room_id = 2, nickname_m = nk, content_m = c, iv_m = ''v'', sent_at = t\<rparr>"

text \<open>\<open>s1\<close> sends \<open>m1\<close> at \<open>n1\<close>, then \<open>s2\<close> sends \<open>m2\<close> at \<open>n2\<close>, then \<open>s1\<close> sends \<open>m3\<close> at \<open>n3\<close>.\<close>

definition one_send :: "int \<Rightarrow> server" where
  "one_send n1 = chat_message no_filter server_group n1 ''s1'' (payload_of ''m1'')"

definition two_sends :: "int \<Rightarrow> int \<Rightarrow> server" where
  "two_sends n1 n2 = chat_message no_filter (one_send n1) n2 ''s2'' (payload_of ''m2'')"

definition three_sends :: "int \<Rightarrow> int \<Rightarrow> int \<Rightarrow> server" where
  "three_sends n1 n2 n3 = chat_message no_filter (two_sends n1 n2) n3 ''s1'' (payload_of ''m3'')"


section \<open>Well-formed codes\<close>

lemma code_char_not_ws: "is_code_char c \<Longrightarrow> \<not> is_ws c"
  by (auto simp: is_code_char_def is_ws_def)

lemma code_char_upper: "is_code_char c \<Longrightarrow> upper_char c = c \<and> c \<noteq> CHR 0xDF"
  unfolding is_code_char_def
  by (elim disjE | simp)+ (simp_all add: upper_char_def lower_letters_def upper_letters_def)

lemma trim_code_chars: "list_all is_code_char s \<Longrightarrow> trim s = s"
proof -
  assume a: "list_all is_code_char s"
  have 1: "dropWhile is_ws s = s"
    using a by (cases s) (auto simp: code_char_not_ws)
  have "list_all is_code_char (rev s)" using a by (simp add: list_all_iff)
  then have 2: "dropWhile is_ws (rev s) = rev s"
    by (cases "rev s") (auto simp: code_char_not_ws)
  show ?thesis by (simp add: trim_def 1 2)
qed

lemma toUpperCase_code_chars: "list_all is_code_char s \<Longrightarrow> toUpperCase s = s"
  by (induction s) (simp_all add: toUpperCase_def code_char_upper)

lemma normalise_code_wellformed: "code_ok rc \<Longrightarrow> normalise_code rc = rc"
  by (simp add: code_ok_def normalise_code_def trim_code_chars toUpperCase_code_chars)

lemma code_ok_nonempty: "code_ok code \<Longrightarrow> code \<noteq> []"
  by (auto simp: code_ok_def)

lemma code_ok_AB12CD: "code_ok ''AB12CD''"
  by (simp add: code_ok_def is_code_char_def)

lemma code_ok_ZZ99ZZ: "code_ok ''ZZ99ZZ''"
  by (simp add: code_ok_def is_code_char_def)


section \<open>Liveness\<close>

lemma utc_seconds: "(e::int) \<le> n div 1000 \<longleftrightarrow> 1000 * e \<le> n"
proof
  assume "e \<le> n div 1000"
  then have "1000 * e \<le> 1000 * (n div 1000)" by simp
  also have "\<dots> \<le> n"
    using mult_div_mod_eq[of 1000 n] pos_mod_sign[of 1000 n] by linarith
  finally show "1000 * e \<le> n" .
next
  assume "1000 * e \<le> n"
  then have "(1000 * e) div 1000 \<le> n div 1000" by (rule zdiv_mono1) simp
  then show "e \<le> n div 1000" by simp
qed

lemma http_verdict:
  assumes ok: "code_ok code" and f1: "\<not> failing d OpFindByCode"
    and f2: "\<not> failing d (OpDeleteById (id_r r))"
    and found: "find (\<lambda>r. room_code r = code \<and> is_active r) (rooms d) = Some r"
  shows "http_verdict_expired node_tz d now code \<longleftrightarrow> now \<ge> 1000 * (expires_at r + node_tz)"
proof -
  have n: "normalise_code code = code" using ok by (rule normalise_code_wellformed)
  have f: "Room_findByCode d code = Inr (Some r)"
    using f1 found by (simp add: Room_findByCode_def)
  show ?thesis
    using ok f2 code_ok_nonempty[OF ok]
    by (simp add: http_verdict_expired_def joinRoom_def n f Room_deleteById_def Date_of_row_def)
qed

lemma realtime_verdict:
  assumes ok: "code_ok code" and x: "xss code = code"
    and nk: "nk \<noteq> []" "xss (take 32 (trim nk)) \<noteq> []"
    and f1: "\<not> failing (db st) OpFindByCode" and f2: "\<not> failing (db st) (OpDeleteById (id_r r))"
    and found: "find (\<lambda>r. room_code r = code \<and> is_active r) (rooms (db st)) = Some r"
  shows "realtime_verdict_expired xss node_tz st now s code nk history
           \<longleftrightarrow> now \<ge> 1000 * (expires_at r + node_tz)"
proof -
  have n: "normalise_code code = code" using ok by (rule normalise_code_wellformed)
  have f: "Room_findByCode (db st) code = Inr (Some r)"
    using f1 found by (simp add: Room_findByCode_def)
  show ?thesis
    using ok f2 nk code_ok_nonempty[OF ok]
    by (simp add: realtime_verdict_expired_def chat_join_def n x f Room_deleteById_def
        Date_of_row_def Let_def emit_socket_def emit_others_def room_full_def join_failed_def)
qed

lemma sweeper_verdict:
  assumes "\<not> failing d OpFindExpired"
    "find (\<lambda>r. room_code r = code \<and> is_active r) (rooms d) = Some r"
  shows "sweeper_verdict_expired d now r \<longleftrightarrow> expires_at r \<le> now div 1000 + session_tz d"
  using assms
  by (auto simp: sweeper_verdict_expired_def Room_findExpired_def NOW_def find_Some_iff)

text \<open>
  Where the three call sites do agree: when the Node process and the database session
  are both in UTC, each of them decides "expired" exactly when \<open>now >= expiresAt\<close>.
\<close>

lemma liveness_checks_agree_when_utc:
  assumes ok: "code_ok code" and x: "xss code = code"
    and nk: "nk \<noteq> []" "xss (take 32 (trim nk)) \<noteq> []"
    and nofail: "\<forall>op. \<not> failing (db st) op"
    and found: "find (\<lambda>r. room_code r = code \<and> is_active r) (rooms (db st)) = Some r"
    and utc: "node_tz = 0" "session_tz (db st) = 0"
  shows "http_verdict_expired node_tz (db st) now code
           = (\<not> isAlive_spec (Date_of_utc (expires_at r)) now)
       \<and> realtime_verdict_expired xss node_tz st now s code nk history
           = (\<not> isAlive_spec (Date_of_utc (expires_at r)) now)
       \<and> sweeper_verdict_expired (db st) now r
           = (\<not> isAlive_spec (Date_of_utc (expires_at r)) now)"
proof -
  have h: "http_verdict_expired node_tz (db st) now code
             \<longleftrightarrow> now \<ge> 1000 * (expires_at r + node_tz)"
    using ok nofail found by (intro http_verdict) auto
  have r: "realtime_verdict_expired xss node_tz st now s code nk history
             \<longleftrightarrow> now \<ge> 1000 * (expires_at r + node_tz)"
    using ok x nk nofail found by (intro realtime_verdict) auto
  have w: "sweeper_verdict_expired (db st) now r
             \<longleftrightarrow> expires_at r \<le> now div 1000 + session_tz (db st)"
    using nofail found by (intro sweeper_verdict) auto
  show ?thesis
    using h r w by (simp add: utc isAlive_spec_def Date_of_utc_def utc_seconds)
qed

lemma find_room_a: "find (\<lambda>r. room_code r = ''AB12CD'' \<and> is_active r) (rooms store_utc) = Some room_a"
  by (simp add: store_utc_def room_a_def)

lemma find_room_a_code: "Room_findByCode store_utc ''AB12CD'' = Inr (Some room_a)"
  by (simp add: Room_findByCode_def store_utc_def room_a_def)

lemma trim_ann: "trim '' ann '' = ''ann''" "trim ''ann'' = ''ann''"
  by (simp_all add: trim_def is_ws_def)

lemma joinRoom_room_a:
  "joinRoom node_tz store_utc now (JStr ''AB12CD'')
     = (if now \<ge> 1000 * (7200 + node_tz)
        then (\<lparr>status = 410,
               json = Error ''This session has expired and all messages have been permanently deleted.''\<rparr>,
              store_utc\<lparr>rooms := [room_b], messages := []\<rparr>)
        else (\<lparr>status = 200, json = RoomInfo ''AB12CD'' Single 7200\<rparr>, store_utc))"
proof -
  have n: "normalise_code ''AB12CD'' = ''AB12CD''"
    by (rule normalise_code_wellformed [OF code_ok_AB12CD])
  have d: "Room_deleteById store_utc (id_r room_a)
             = Inr (store_utc\<lparr>rooms := [room_b], messages := []\<rparr>)"
    by (simp add: Room_deleteById_def store_utc_def room_a_def room_b_def msg_a_def)
  have r: "Date_of_row node_tz 7200 = 1000 * (7200 + node_tz)"
    "room_code room_a = ''AB12CD''" "type_r room_a = Single" "expires_at room_a = 7200"
    by (simp_all add: Date_of_row_def room_a_def)
  show ?thesis
    by (simp add: joinRoom_def n code_ok_AB12CD find_room_a_code d r)
qed

text \<open>
  C1 fails on the code, in two ways. Room \<open>AB12CD\<close> expires at 02:00:00 UTC.

  With the Node process in UTC and the database session one hour east of UTC, at
  01:23:20 UTC: the room is alive by the reference predicate, by the HTTP pre-check and
  by \<open>chat:join\<close>, and expired for the query of the sweeper.

  With the database session in UTC and the Node process six hours east of UTC, at
  02:13:20 UTC: the room is expired by the reference predicate and for the query of the
  sweeper, and alive for the HTTP pre-check (which answers 200) and for \<open>chat:join\<close>.
\<close>

theorem liveness_checks_diverge:
  "isAlive_spec (Date_of_utc (expires_at room_a)) 5000000
   \<and> \<not> http_verdict_expired 0 store_east 5000000 ''AB12CD''
   \<and> \<not> realtime_verdict_expired no_filter 0 (server_two\<lparr>db := store_east\<rparr>) 5000000
         ''s3'' ''AB12CD'' ''ann'' []
   \<and> sweeper_verdict_expired store_east 5000000 room_a
   \<and> \<not> isAlive_spec (Date_of_utc (expires_at room_a)) 8000000
   \<and> sweeper_verdict_expired store_utc 8000000 room_a
   \<and> \<not> http_verdict_expired 21600 store_utc 8000000 ''AB12CD''
   \<and> \<not> realtime_verdict_expired no_filter 21600 server_two 8000000 ''s3'' ''AB12CD'' ''ann'' []"
proof -
  have ok: "code_ok ''AB12CD''" by (rule code_ok_AB12CD)
  have x: "no_filter ''AB12CD'' = ''AB12CD''" by (simp add: no_filter_def)
  have nk: "''ann'' \<noteq> []" "no_filter (take 32 (trim ''ann'')) \<noteq> []"
    by (simp_all add: no_filter_def trim_ann)
  have fe: "find (\<lambda>r. room_code r = ''AB12CD'' \<and> is_active r) (rooms store_east) = Some room_a"
    "\<not> failing store_east op" "session_tz store_east = 3600" for op
    by (simp_all add: store_east_def store_utc_def room_a_def)
  have fu: "\<not> failing store_utc op" "session_tz store_utc = 0" for op
    by (simp_all add: store_utc_def)
  have e: "expires_at room_a = 7200" by (simp add: room_a_def)
  have 1: "isAlive_spec (Date_of_utc (expires_at room_a)) 5000000"
    and 5: "\<not> isAlive_spec (Date_of_utc (expires_at room_a)) 8000000"
    by (simp_all add: isAlive_spec_def Date_of_utc_def e)
  have 2: "\<not> http_verdict_expired 0 store_east 5000000 ''AB12CD''"
    by (simp add: http_verdict [OF ok fe(2) fe(2) fe(1)] e)
  have 3: "\<not> realtime_verdict_expired no_filter 0 (server_two\<lparr>db := store_east\<rparr>) 5000000
         ''s3'' ''AB12CD'' ''ann'' []"
    by (subst realtime_verdict [OF ok x nk, where r = room_a]) (simp_all add: fe e)
  have 4: "sweeper_verdict_expired store_east 5000000 room_a"
    by (simp add: sweeper_verdict [OF fe(2) fe(1)] e fe(3))
  have 6: "sweeper_verdict_expired store_utc 8000000 room_a"
    by (simp add: sweeper_verdict [OF fu(1) find_room_a] e fu(2))
  have 7: "\<not> http_verdict_expired 21600 store_utc 8000000 ''AB12CD''"
    by (simp add: http_verdict [OF ok fu(1) fu(1) find_room_a] e)
  have 8: "\<not> realtime_verdict_expired no_filter 21600 server_two 8000000 ''s3'' ''AB12CD'' ''ann'' []"
    by (subst realtime_verdict [OF ok x nk, where r = room_a])
       (simp_all add: server_two_def fu find_room_a e)
  show ?thesis
    using 1 2 3 4 5 6 7 8 by blast
qed


section \<open>The join pre-check\<close>

text \<open>
  The three answers of the pre-check, for a request whose code is well-formed after
  normalisation and a store that answers. The expiry test is the one the handler makes:
  the clock against \<open>new Date(room.expires_at + "Z")\<close>.
\<close>

lemma joinRoom_precheck_cases:
  assumes rc: "nonempty_string roomCode = Some rc"
      and ok: "code_ok (normalise_code rc)"
      and f1: "\<not> failing d OpFindByCode"
      and f2: "\<forall>i. \<not> failing d (OpDeleteById i)"
  shows "case find (\<lambda>r. room_code r = normalise_code rc \<and> is_active r) (rooms d) of
           None \<Rightarrow> status (fst (joinRoom node_tz d now roomCode)) = 404
                    \<and> snd (joinRoom node_tz d now roomCode) = d
         | Some room \<Rightarrow>
             if now \<ge> Date_of_row node_tz (expires_at room) then
               status (fst (joinRoom node_tz d now roomCode)) = 410
               \<and> Room_deleteById d (id_r room) = Inr (snd (joinRoom node_tz d now roomCode))
               \<and> room \<notin> set (rooms (snd (joinRoom node_tz d now roomCode)))
               \<and> (\<forall>m \<in> set (messages (snd (joinRoom node_tz d now roomCode))). room_id m \<noteq> id_r room)
             else
               fst (joinRoom node_tz d now roomCode)
                 = \<lparr>status = 200, json = RoomInfo (normalise_code rc) (type_r room) (expires_at room)\<rparr>
               \<and> snd (joinRoom node_tz d now roomCode) = d"
  using assms
  by (auto simp: joinRoom_def Room_findByCode_def Room_deleteById_def Let_def
      split: option.splits dest: find_Some_iff[THEN iffD1])

lemma joinRoom_unknown_code:
  "joinRoom node_tz store_utc now (JStr ''QQ77QQ'')
     = (\<lparr>status = 404, json = Error ''Room not found. It may have expired or never existed.''\<rparr>,
        store_utc)"
proof -
  have n: "normalise_code ''QQ77QQ'' = ''QQ77QQ''"
    by (rule normalise_code_wellformed) (simp add: code_ok_def is_code_char_def)
  have ok: "code_ok ''QQ77QQ''" by (simp add: code_ok_def is_code_char_def)
  have f: "Room_findByCode store_utc ''QQ77QQ'' = Inr None"
    by (simp add: Room_findByCode_def store_utc_def room_a_def room_b_def)
  show ?thesis by (simp add: joinRoom_def n ok f)
qed

text \<open>
  C4 fails on the code. The handler appends \<open>"Z"\<close> to the text of the \<open>Date\<close> the driver
  returns, so the stored instant is read shifted by the UTC offset of the Node process.
  Room \<open>AB12CD\<close> of the sample store is active and expires at 02:00:00 UTC.

  With the process six hours east of UTC, the request for \<open>AB12CD\<close> at 02:13:20 UTC, after
  the expiry, is answered 200 with the room's data, and the room stays in the store.

  With the process five hours west of UTC, the same request at 01:23:20 UTC, before the
  expiry, is answered 410, and the room and its message are deleted.

  With the process in UTC the two requests are answered 410 and 200.
\<close>

theorem joinRoom_reads_expiry_in_process_zone:
  "find (\<lambda>r. room_code r = ''AB12CD'' \<and> is_active r) (rooms store_utc) = Some room_a
   \<and> code_ok ''AB12CD''
   \<and> \<not> isAlive_spec (Date_of_utc (expires_at room_a)) 8000000
   \<and> joinRoom 21600 store_utc 8000000 (JStr ''AB12CD'')
       = (\<lparr>status = 200, json = RoomInfo ''AB12CD'' Single 7200\<rparr>, store_utc)
   \<and> isAlive_spec (Date_of_utc (expires_at room_a)) 5000000
   \<and> joinRoom (- 18000) store_utc 5000000 (JStr ''AB12CD'')
       = (\<lparr>status = 410,
           json = Error ''This session has expired and all messages have been permanently deleted.''\<rparr>,
          store_utc\<lparr>rooms := [room_b], messages := []\<rparr>)
   \<and> status (fst (joinRoom 0 store_utc 8000000 (JStr ''AB12CD''))) = 410
   \<and> status (fst (joinRoom 0 store_utc 5000000 (JStr ''AB12CD''))) = 200"
  by (simp add: find_room_a code_ok_AB12CD joinRoom_room_a isAlive_spec_def Date_of_utc_def)
     (simp add: room_a_def)


section \<open>Room codes and room creation\<close>

lemma draw_code_ok: "code_ok (draw_code bytes)"
proof -
  have "CHARS ! (n mod 36) \<in> set CHARS" for n
    by (rule nth_mem) (simp add: CHARS_def)
  then have "is_code_char (CHARS ! (n mod 36))" for n
    by (simp add: is_code_char_def CHARS_def)
  then show ?thesis
    by (simp add: code_ok_def draw_code_def) (simp add: CHARS_def)
qed

text \<open>Every draw from \<open>attempt\<close> on collides: five lookups in all, then the error.\<close>

lemma generate_exhausted_from:
  assumes "\<forall>a. attempt \<le> a \<and> a < 5 \<longrightarrow> (\<exists>r. Room_findByCode d (draw_code (rnd a)) = Inr (Some r))"
    and "attempt \<le> 5"
  shows "generateUniqueCode_from d rnd attempt looked
           = (Inl GenerationExhausted, looked @ map (\<lambda>a. draw_code (rnd a)) [attempt..<5])"
  using assms
proof (induction d rnd attempt looked rule: generateUniqueCode_from.induct)
  case (1 db rnd attempt looked)
  show ?case
  proof (cases "attempt < 5")
    case True
    then obtain r where r: "Room_findByCode db (draw_code (rnd attempt)) = Inr (Some r)"
      using "1.prems"(1) by blast
    have "generateUniqueCode_from db rnd (Suc attempt) (looked @ [draw_code (rnd attempt)])
            = (Inl GenerationExhausted,
               (looked @ [draw_code (rnd attempt)]) @ map (\<lambda>a. draw_code (rnd a)) [Suc attempt..<5])"
      using "1.IH"[OF True refl r] "1.prems" True by auto
    then show ?thesis
      using True r
      by (subst generateUniqueCode_from.simps) (simp add: Let_def upt_conv_Cons [of attempt 5])
  next
    case False
    then have "attempt = 5" using "1.prems"(2) by simp
    then show ?thesis by (subst generateUniqueCode_from.simps) simp
  qed
qed

text \<open>The draws before \<open>k\<close> collide and draw \<open>k\<close> is free: it is returned at lookup \<open>k + 1\<close>.\<close>

lemma generate_found_from:
  assumes "\<forall>a. attempt \<le> a \<and> a < k \<longrightarrow> (\<exists>r. Room_findByCode d (draw_code (rnd a)) = Inr (Some r))"
    and "Room_findByCode d (draw_code (rnd k)) = Inr None"
    and "attempt \<le> k" "k < 5"
  shows "generateUniqueCode_from d rnd attempt looked
           = (Inr (draw_code (rnd k)), looked @ map (\<lambda>a. draw_code (rnd a)) [attempt..<Suc k])"
  using assms
proof (induction d rnd attempt looked rule: generateUniqueCode_from.induct)
  case (1 db rnd attempt looked)
  have lt: "attempt < 5" using "1.prems" by simp
  show ?case
  proof (cases "attempt = k")
    case True
    then show ?thesis
      using "1.prems"(2) lt by (subst generateUniqueCode_from.simps) (simp add: Let_def)
  next
    case False
    then have k: "attempt < k" using "1.prems"(3) by simp
    then obtain r where r: "Room_findByCode db (draw_code (rnd attempt)) = Inr (Some r)"
      using "1.prems"(1) by blast
    have "generateUniqueCode_from db rnd (Suc attempt) (looked @ [draw_code (rnd attempt)])
            = (Inr (draw_code (rnd k)),
               (looked @ [draw_code (rnd attempt)]) @ map (\<lambda>a. draw_code (rnd a)) [Suc attempt..<Suc k])"
      using "1.IH"[OF lt refl r] "1.prems" k by auto
    then show ?thesis
      using lt r k
      by (subst generateUniqueCode_from.simps) (simp add: Let_def upt_conv_Cons [of attempt "Suc k"] del: upt_Suc)
  qed
qed

text \<open>Whatever the store answers: at most five lookups, and a returned code is the one
  looked up last, which the store did not find.\<close>

lemma generate_result_from:
  assumes "generateUniqueCode_from d rnd attempt looked = (res, tr)"
  shows "length tr \<le> length looked + (5 - attempt)
         \<and> (\<forall>code. res = Inr code \<longrightarrow>
               tr \<noteq> [] \<and> last tr = code \<and> (\<exists>a<5. code = draw_code (rnd a))
               \<and> Room_findByCode d code = Inr None)"
  using assms
proof (induction d rnd attempt looked rule: generateUniqueCode_from.induct)
  case (1 db rnd attempt looked)
  show ?case
  proof (cases "attempt < 5")
    case True
    note lt = True
    show ?thesis
    proof (cases "Room_findByCode db (draw_code (rnd attempt))")
      case (Inl e)
      then show ?thesis
        using "1.prems" lt by (subst (asm) generateUniqueCode_from.simps) (auto simp: Let_def)
    next
      case (Inr found)
      show ?thesis
      proof (cases found)
        case None
        then show ?thesis
          using "1.prems" lt Inr by (subst (asm) generateUniqueCode_from.simps) (auto simp: Let_def)
      next
        case (Some r)
        have "generateUniqueCode_from db rnd (Suc attempt) (looked @ [draw_code (rnd attempt)])
                = (res, tr)"
          using "1.prems"(1) lt Inr Some by (subst (asm) generateUniqueCode_from.simps) (simp add: Let_def)
        then show ?thesis
          using "1.IH"[OF lt refl _ ] Inr Some lt by auto
      qed
    qed
  next
    case False
    then show ?thesis
      using "1.prems" by (subst (asm) generateUniqueCode_from.simps) (auto simp: Let_def)
  qed
qed

lemma draw_collide:
  "attempt < k \<Longrightarrow> draw_code (rnd_collide k attempt) = ''AB12CD''"
  "\<not> attempt < k \<Longrightarrow> draw_code (rnd_collide k attempt) = ''AAAAAA''"
  by (simp_all add: draw_code_def rnd_collide_def CHARS_def)

lemma find_AAAAAA: "Room_findByCode store_utc ''AAAAAA'' = Inr None"
  by (simp add: Room_findByCode_def store_utc_def room_a_def room_b_def)

text \<open>
  C8. Every drawn code has six characters of the alphabet \<open>A-Z0-9\<close>. The generator looks
  each draw up in the store, in the order of the draws, and never issues more than 5
  lookups; a code that it returns is the one looked up last, which the store did not find.
  It retries on a collision: when the first \<open>k\<close> draws (\<open>k < 5\<close>) collide with active rooms
  and the next draw is free, it returns that draw after exactly \<open>k + 1\<close> lookups. When each
  of the first five draws collides, it throws the exhaustion error after exactly those 5
  lookups, whatever a sixth draw would be, and a creation request that reached the
  generator is answered with the server error, the store unchanged: \<open>createRoom\<close> calls
  the generator once.
\<close>

theorem generateUniqueCode_bounded_retry:
  "code_ok (draw_code bytes)
   \<and> length (snd (generateUniqueCode d rnd)) \<le> 5
   \<and> (\<forall>code. fst (generateUniqueCode d rnd) = Inr code \<longrightarrow>
         code_ok code \<and> Room_findByCode d code = Inr None
         \<and> snd (generateUniqueCode d rnd) \<noteq> [] \<and> last (snd (generateUniqueCode d rnd)) = code)
   \<and> (k < 5 \<and> (\<forall>a<k. \<exists>r. Room_findByCode d (draw_code (rnd a)) = Inr (Some r))
        \<and> Room_findByCode d (draw_code (rnd k)) = Inr None \<longrightarrow>
         generateUniqueCode d rnd
           = (Inr (draw_code (rnd k)), map (\<lambda>a. draw_code (rnd a)) [0..<Suc k]))
   \<and> ((\<forall>a<5. \<exists>r. Room_findByCode d (draw_code (rnd a)) = Inr (Some r)) \<longrightarrow>
         generateUniqueCode d rnd
           = (Inl GenerationExhausted, map (\<lambda>a. draw_code (rnd a)) [0..<5])
         \<and> (room_type_of type \<noteq> None
              \<and> (\<exists>e. compute_expiry parse now expiryType customExpiry = Inr (Inr e)) \<longrightarrow>
            createRoom parse rnd d now type expiryType customExpiry
              = (server_error_creating, d)))"
proof -
  obtain res tr where g: "generateUniqueCode_from d rnd 0 [] = (res, tr)"
    by (cases "generateUniqueCode_from d rnd 0 []")
  have r: "length tr \<le> 5 \<and> (\<forall>code. res = Inr code \<longrightarrow>
               tr \<noteq> [] \<and> last tr = code \<and> (\<exists>a<5. code = draw_code (rnd a))
               \<and> Room_findByCode d code = Inr None)"
    using generate_result_from [OF g] by simp
  have 2: "length (snd (generateUniqueCode d rnd)) \<le> 5"
    using r by (simp add: generateUniqueCode_def g)
  have 3: "\<forall>code. fst (generateUniqueCode d rnd) = Inr code \<longrightarrow>
             code_ok code \<and> Room_findByCode d code = Inr None
             \<and> snd (generateUniqueCode d rnd) \<noteq> [] \<and> last (snd (generateUniqueCode d rnd)) = code"
  proof (intro allI impI)
    fix code
    assume "fst (generateUniqueCode d rnd) = Inr code"
    then have "res = Inr code" by (simp add: generateUniqueCode_def g)
    with r obtain a where c: "code = draw_code (rnd a)"
      and f: "Room_findByCode d code = Inr None" and t: "tr \<noteq> []" "last tr = code"
      by blast
    have "code_ok code" unfolding c by (rule draw_code_ok)
    then show "code_ok code \<and> Room_findByCode d code = Inr None
               \<and> snd (generateUniqueCode d rnd) \<noteq> [] \<and> last (snd (generateUniqueCode d rnd)) = code"
      using f t by (simp add: generateUniqueCode_def g)
  qed
  have 4: "generateUniqueCode d rnd
             = (Inr (draw_code (rnd k)), map (\<lambda>a. draw_code (rnd a)) [0..<Suc k])"
    if "k < 5 \<and> (\<forall>a<k. \<exists>r. Room_findByCode d (draw_code (rnd a)) = Inr (Some r))
        \<and> Room_findByCode d (draw_code (rnd k)) = Inr None"
    unfolding generateUniqueCode_def
    using that generate_found_from [of 0 k d rnd "[]"] by simp
  have 5: "generateUniqueCode d rnd
             = (Inl GenerationExhausted, map (\<lambda>a. draw_code (rnd a)) [0..<5])"
    if "\<forall>a<5. \<exists>r. Room_findByCode d (draw_code (rnd a)) = Inr (Some r)"
    unfolding generateUniqueCode_def
    using that generate_exhausted_from [of 0 d rnd "[]"] by simp
  have 6: "createRoom parse rnd d now type expiryType customExpiry = (server_error_creating, d)"
    if "fst (generateUniqueCode d rnd) = Inl GenerationExhausted"
      and "room_type_of type \<noteq> None
           \<and> (\<exists>e. compute_expiry parse now expiryType customExpiry = Inr (Inr e))"
    using that by (auto simp: createRoom_def)
  show ?thesis
  proof (intro conjI impI)
    show "code_ok (draw_code bytes)" by (rule draw_code_ok)
    show "length (snd (generateUniqueCode d rnd)) \<le> 5" by (rule 2)
    show "\<forall>code. fst (generateUniqueCode d rnd) = Inr code \<longrightarrow>
             code_ok code \<and> Room_findByCode d code = Inr None
             \<and> snd (generateUniqueCode d rnd) \<noteq> [] \<and> last (snd (generateUniqueCode d rnd)) = code"
      by (rule 3)
  next
    assume a: "k < 5 \<and> (\<forall>a<k. \<exists>r. Room_findByCode d (draw_code (rnd a)) = Inr (Some r))
        \<and> Room_findByCode d (draw_code (rnd k)) = Inr None"
    show "generateUniqueCode d rnd
             = (Inr (draw_code (rnd k)), map (\<lambda>a. draw_code (rnd a)) [0..<Suc k])"
      by (rule 4 [OF a])
  next
    assume a: "\<forall>a<5. \<exists>r. Room_findByCode d (draw_code (rnd a)) = Inr (Some r)"
    show "generateUniqueCode d rnd
             = (Inl GenerationExhausted, map (\<lambda>a. draw_code (rnd a)) [0..<5])"
      by (rule 5 [OF a])
  next
    assume a: "\<forall>a<5. \<exists>r. Room_findByCode d (draw_code (rnd a)) = Inr (Some r)"
      and b: "room_type_of type \<noteq> None
              \<and> (\<exists>e. compute_expiry parse now expiryType customExpiry = Inr (Inr e))"
    have "fst (generateUniqueCode d rnd) = Inl GenerationExhausted"
      by (simp add: 5 [OF a])
    then show "createRoom parse rnd d now type expiryType customExpiry = (server_error_creating, d)"
      using b by (rule 6)
  qed
qed

text \<open>
  At the sample store. A random source whose first five draws are the code of room
  \<open>AB12CD\<close> and whose sixth would be the free code \<open>AAAAAA\<close>: the generator looks \<open>AB12CD\<close>
  up five times and throws the exhaustion error, and the creation request is answered
  500. A source whose first two draws are \<open>AB12CD\<close> and whose third is \<open>AAAAAA\<close>: the
  generator returns \<open>AAAAAA\<close> at the third lookup.
\<close>

theorem generateUniqueCode_bounded_retry_witness:
  "Room_findByCode store_utc (draw_code (rnd_collide 5 0)) = Inr (Some room_a)
   \<and> Room_findByCode store_utc (draw_code (rnd_collide 5 1)) = Inr (Some room_a)
   \<and> Room_findByCode store_utc (draw_code (rnd_collide 5 2)) = Inr (Some room_a)
   \<and> Room_findByCode store_utc (draw_code (rnd_collide 5 3)) = Inr (Some room_a)
   \<and> Room_findByCode store_utc (draw_code (rnd_collide 5 4)) = Inr (Some room_a)
   \<and> Room_findByCode store_utc (draw_code (rnd_collide 5 5)) = Inr None
   \<and> generateUniqueCode store_utc (rnd_collide 5)
       = (Inl GenerationExhausted, [''AB12CD'', ''AB12CD'', ''AB12CD'', ''AB12CD'', ''AB12CD''])
   \<and> room_type_of (JStr ''group'') \<noteq> None
   \<and> compute_expiry parse_one 0 (JStr ''10m'') JUndefined = Inr (Inr 600)
   \<and> createRoom parse_one (rnd_collide 5) store_utc 0 (JStr ''group'') (JStr ''10m'') JUndefined
       = (server_error_creating, store_utc)
   \<and> (2::nat) < 5
   \<and> Room_findByCode store_utc (draw_code (rnd_collide 2 0)) = Inr (Some room_a)
   \<and> Room_findByCode store_utc (draw_code (rnd_collide 2 1)) = Inr (Some room_a)
   \<and> Room_findByCode store_utc (draw_code (rnd_collide 2 2)) = Inr None
   \<and> generateUniqueCode store_utc (rnd_collide 2)
       = (Inr ''AAAAAA'', [''AB12CD'', ''AB12CD'', ''AAAAAA''])
   \<and> code_ok ''AAAAAA''"
proof -
  have c5: "Room_findByCode store_utc (draw_code (rnd_collide 5 a)) = Inr (Some room_a)"
    if "a < 5" for a
    using that by (simp add: draw_collide find_room_a_code)
  have c2: "Room_findByCode store_utc (draw_code (rnd_collide 2 a)) = Inr (Some room_a)"
    if "a < 2" for a
    using that by (simp add: draw_collide find_room_a_code)
  have f5: "Room_findByCode store_utc (draw_code (rnd_collide 5 5)) = Inr None"
    and f2: "Room_findByCode store_utc (draw_code (rnd_collide 2 2)) = Inr None"
    by (simp_all add: draw_collide find_AAAAAA)
  have 1: "\<forall>a<5. \<exists>r. Room_findByCode store_utc (draw_code (rnd_collide 5 a)) = Inr (Some r)"
    using c5 by blast
  have 2: "room_type_of (JStr ''group'') \<noteq> None" by simp
  have 3: "compute_expiry parse_one 0 (JStr ''10m'') JUndefined = Inr (Inr 600)"
    by (simp add: compute_expiry_def iso_seconds_def)
  have 4: "(2::nat) < 5 \<and> (\<forall>a<2. \<exists>r. Room_findByCode store_utc (draw_code (rnd_collide 2 a)) = Inr (Some r))
           \<and> Room_findByCode store_utc (draw_code (rnd_collide 2 2)) = Inr None"
    using c2 f2 by auto
  have u5: "[0..<5] = [0, 1, 2, 3, 4]" and u3: "[0..<Suc 2] = [0, 1, 2]"
    by (simp_all add: upt_rec)
  have t5: "map (\<lambda>a. draw_code (rnd_collide 5 a)) [0..<5]
              = [''AB12CD'', ''AB12CD'', ''AB12CD'', ''AB12CD'', ''AB12CD'']"
    unfolding u5 by (simp add: draw_collide)
  have t2: "map (\<lambda>a. draw_code (rnd_collide 2 a)) [0..<Suc 2] = [''AB12CD'', ''AB12CD'', ''AAAAAA'']"
    unfolding u3 by (simp add: draw_collide)
  have d2: "draw_code (rnd_collide 2 2) = ''AAAAAA''" by (simp add: draw_collide)
  note A = generateUniqueCode_bounded_retry
            [of "rnd_collide 5 5" store_utc "rnd_collide 5" 2 "JStr ''group''" parse_one 0
                "JStr ''10m''" JUndefined]
  note B = generateUniqueCode_bounded_retry
            [of "rnd_collide 5 5" store_utc "rnd_collide 2" 2 "JStr ''group''" parse_one 0
                "JStr ''10m''" JUndefined]
  have 5: "generateUniqueCode store_utc (rnd_collide 5)
             = (Inl GenerationExhausted, map (\<lambda>a. draw_code (rnd_collide 5 a)) [0..<5])"
    using A 1 by blast
  have 6: "createRoom parse_one (rnd_collide 5) store_utc 0 (JStr ''group'') (JStr ''10m'') JUndefined
             = (server_error_creating, store_utc)"
    using A 1 2 3 by blast
  have 7: "generateUniqueCode store_utc (rnd_collide 2)
             = (Inr (draw_code (rnd_collide 2 2)), map (\<lambda>a. draw_code (rnd_collide 2 a)) [0..<Suc 2])"
    using B 4 by blast
  have 8: "code_ok (draw_code (rnd_collide 5 5))"
    using A by blast
  have 9: "draw_code (rnd_collide 5 5) = ''AAAAAA''" by (simp add: draw_collide)
  show ?thesis
    using c5 [of 0] c5 [of 1] c5 [of 2] c5 [of 3] c5 [of 4] f5 5 [unfolded t5] 2 3 6
      c2 [of 0] c2 [of 1] f2 7 [unfolded t2 d2] 8 [unfolded 9]
    by simp
qed
text \<open>The \<open>custom\<close> branch of \<open>createRoom\<close>, case by case.\<close>

lemma createRoom_custom_invalid_date:
  assumes "room_type_of type = Some ty" "\<not> falsy customExpiry"
    "new_Date parse customExpiry = None"
  shows "createRoom parse rnd d now type (JStr ''custom'') customExpiry = (server_error_creating, d)"
  using assms by (simp add: createRoom_def compute_expiry_def)

lemma createRoom_custom_not_future:
  assumes "room_type_of type = Some ty" "\<not> falsy customExpiry"
    "new_Date parse customExpiry = Some t" "t \<le> now"
  shows "createRoom parse rnd d now type (JStr ''custom'') customExpiry
           = (bad_request ''customExpiry must be in the future.'', d)"
  using assms by (simp add: createRoom_def compute_expiry_def)

lemma createRoom_custom_too_far:
  assumes "room_type_of type = Some ty" "\<not> falsy customExpiry"
    "new_Date parse customExpiry = Some t" "t > now + 30 * 24 * 60 * 60 * 1000"
  shows "createRoom parse rnd d now type (JStr ''custom'') customExpiry
           = (bad_request ''customExpiry cannot be more than 30 days in the future.'', d)"
  using assms by (simp add: createRoom_def compute_expiry_def)

lemma createRoom_custom_created:
  assumes "room_type_of type = Some ty" "\<not> falsy customExpiry"
    "new_Date parse customExpiry = Some t" "now < t" "t \<le> now + 30 * 24 * 60 * 60 * 1000"
    "fst (generateUniqueCode d rnd) = Inr code"
    "Room_create d now code ty (iso_seconds t) = Inr (r, d')"
  shows "createRoom parse rnd d now type (JStr ''custom'') customExpiry
           = (\<lparr>status = 201, json = RoomInfo code ty (iso_seconds t)\<rparr>, d')"
proof -
  have "room_code r = code \<and> type_r r = ty \<and> expires_at r = iso_seconds t"
    using assms(7) by (auto simp: Room_create_def Let_def split: if_splits)
  then show ?thesis
    using assms by (simp add: createRoom_def compute_expiry_def)
qed

text \<open>
  C9 at a malformed instant. The request \<open>{type: "group", expiryType: "custom",
  customExpiry: "tomorrow"}\<close>, whose \<open>customExpiry\<close> is not a date, is answered 500
  "Server error creating room.", not 400 with the reason "Invalid customExpiry datetime
  format.": \<open>toISOString()\<close> throws on the invalid date before the \<open>isNaN\<close> test is
  reached. No room is created.
\<close>

theorem createRoom_malformed_expiry_server_error:
  "\<not> falsy (JStr ''tomorrow'') \<and> new_Date parse_one (JStr ''tomorrow'') = None
   \<and> createRoom parse_one rnd_zero store_utc 5000000
        (JStr ''group'') (JStr ''custom'') (JStr ''tomorrow'')
       = (\<lparr>status = 500, json = Error ''Server error creating room.''\<rparr>, store_utc)"
  by (simp add: createRoom_def compute_expiry_def new_Date_def parse_one_def
      server_error_creating_def)




section \<open>Sending a message\<close>

lemma chat_message_cases:
  "chat_message xss st now s p = st
   \<or> (\<exists>code. currentRoom (sockets st s) = Some code
         \<and> Room_findByCode (db st) code = Inr None
         \<and> chat_message xss st now s p = emit_socket st s (RoomExpired ''Room no longer exists.''))
   \<or> (\<exists>code nk rid c i msgId db'.
         currentRoom (sockets st s) = Some code \<and> nickname (sockets st s) = Some nk
         \<and> roomId (sockets st s) = Some rid
         \<and> nonempty_string (content p) = Some c \<and> nonempty_string (iv p) = Some i
         \<and> Message_create (db st) now rid nk (xss (trim c)) (xss (trim i)) = Inr (msgId, db')
         \<and> chat_message xss st now s p
             = emit_room (st\<lparr>db := db'\<rparr>) code
                 (ChatMessage msgId nk (xss (trim c)) (xss (trim i)) now))"
proof (cases "currentRoom (sockets st s)")
  case None
  then show ?thesis by (simp add: chat_message_def)
next
  case code: (Some code)
  show ?thesis
  proof (cases "nickname (sockets st s)")
    case None
    then show ?thesis by (simp add: chat_message_def code)
  next
    case nk: (Some nk)
    show ?thesis
    proof (cases "nonempty_string (content p)")
      case None
      then show ?thesis by (simp add: chat_message_def code nk)
    next
      case c: (Some c)
      show ?thesis
      proof (cases "nonempty_string (iv p)")
        case None
        then show ?thesis by (simp add: chat_message_def code nk c)
      next
        case i: (Some i)
        show ?thesis
        proof (cases "Room_findByCode (db st) code")
          case (Inl e)
          then show ?thesis by (simp add: chat_message_def code nk c i)
        next
          case found: (Inr found)
          show ?thesis
          proof (cases found)
            case None
            then show ?thesis using found by (simp add: chat_message_def code nk c i)
          next
            case room: (Some room)
            show ?thesis
            proof (cases "roomId (sockets st s)")
              case None
              then show ?thesis using found room by (simp add: chat_message_def code nk c i)
            next
              case rid: (Some rid)
              show ?thesis
              proof (cases "Message_create (db st) now rid nk (xss (trim c)) (xss (trim i))")
                case (Inl e)
                then show ?thesis
                  using found room rid by (simp add: chat_message_def code nk c i)
              next
                case (Inr res)
                then show ?thesis
                  using found room rid
                  by (cases res) (simp add: chat_message_def code nk c i)
              qed
            qed
          qed
        qed
      qed
    qed
  qed
qed

lemma Message_create_result:
  assumes "Message_create d now rid nk c i = Inr (msgId, d')"
  shows "msgId = next_message_id d
       \<and> d' = d\<lparr>messages := messages d @ [\<lparr>id_m = next_message_id d, room_id = rid, nickname_m = nk,
                     content_m = c, iv_m = i, sent_at = NOW d now\<rparr>],
                next_message_id := Suc (next_message_id d)\<rparr>"
  using assms by (auto simp: Message_create_def Let_def split: if_splits)

lemma trim_x: "trim ''x'' = ''x''" "trim ''y'' = ''y''"
  by (simp_all add: trim_def is_ws_def)

lemma chat_message_server_two:
  "chat_message no_filter server_two 8000000 ''s1'' payload_xy
     = emit_room (server_two\<lparr>db := store_utc\<lparr>messages := [msg_a, msg_x], next_message_id := 3\<rparr>\<rparr>)
         ''AB12CD'' (ChatMessage 2 ''ann'' ''x'' ''y'' 8000000)"
proof -
  have m: "Message_create store_utc 8000000 1 ''ann'' ''x'' ''y''
             = Inr (2, store_utc\<lparr>messages := [msg_a, msg_x], next_message_id := 3\<rparr>)"
    by (simp add: Message_create_def store_utc_def room_a_def room_b_def msg_x_def NOW_def Let_def)
  have s: "sockets server_two ''s1'' = sock_ann" "db server_two = store_utc"
    by (simp_all add: server_two_def)
  show ?thesis
    by (simp add: chat_message_def s sock_ann_def payload_xy_def trim_x find_room_a_code m Let_def
        no_filter_def del: One_nat_def)
qed




text \<open>
  C10. Two payloads with the same \<open>content\<close> and \<open>iv\<close> are handled identically,
  whatever else they carry. The handler changes no field of any socket. A message in the
  store after the handler either was there before or carries the nickname recorded on the
  sending socket, and so does every \<open>chat:message\<close> event delivered by the handler. That
  recorded nickname is written by \<open>chat:join\<close> only, as the trimmed, truncated and
  filtered nickname of the join request.
\<close>

theorem chat_message_nickname_from_session:
  "(content p = content q \<and> iv p = iv q \<longrightarrow>
      chat_message xss st now s p = chat_message xss st now s q)
   \<and> sockets (chat_message xss st now s p) = sockets st
   \<and> (\<forall>m \<in> set (messages (db (chat_message xss st now s p))).
         m \<in> set (messages (db st)) \<or> nickname (sockets st s) = Some (nickname_m m))
   \<and> (\<forall>s' msgId n c i t.
         ChatMessage msgId n c i t \<in> set (delivered (chat_message xss st now s p) s') \<longrightarrow>
         ChatMessage msgId n c i t \<in> set (delivered st s') \<or> nickname (sockets st s) = Some n)
   \<and> (\<forall>nk. nonempty_string nick = Some nk \<longrightarrow>
         sockets (chat_join xss node_tz st now s roomCode nick history) s = sockets st s
         \<or> nickname (sockets (chat_join xss node_tz st now s roomCode nick history) s)
             = Some (xss (take 32 (trim nk))))"
proof (intro conjI)
  show "content p = content q \<and> iv p = iv q \<longrightarrow>
          chat_message xss st now s p = chat_message xss st now s q"
  proof
    assume h: "content p = content q \<and> iv p = iv q"
    show "chat_message xss st now s p = chat_message xss st now s q"
      unfolding chat_message_def h [THEN conjunct1] h [THEN conjunct2] by (rule refl)
  qed
  show "sockets (chat_message xss st now s p) = sockets st"
    using chat_message_cases [of xss st now s p]
    by (auto simp: emit_socket_def emit_room_def)
  show "\<forall>m \<in> set (messages (db (chat_message xss st now s p))).
         m \<in> set (messages (db st)) \<or> nickname (sockets st s) = Some (nickname_m m)"
    using chat_message_cases [of xss st now s p]
    by (auto simp: emit_socket_def emit_room_def dest!: Message_create_result)
  show "\<forall>s' msgId n c i t.
         ChatMessage msgId n c i t \<in> set (delivered (chat_message xss st now s p) s') \<longrightarrow>
         ChatMessage msgId n c i t \<in> set (delivered st s') \<or> nickname (sockets st s) = Some n"
    using chat_message_cases [of xss st now s p]
    by (auto simp: emit_socket_def emit_room_def split: if_splits)
  show "\<forall>nk. nonempty_string nick = Some nk \<longrightarrow>
         sockets (chat_join xss node_tz st now s roomCode nick history) s = sockets st s
         \<or> nickname (sockets (chat_join xss node_tz st now s roomCode nick history) s)
             = Some (xss (take 32 (trim nk)))"
    by (auto simp: chat_join_def Let_def emit_socket_def emit_others_def
        split: option.splits sum.splits)
qed

lemma participants_server_two: "participants_of server_two ''AB12CD'' = {|''s1'', ''s2''|}"
  by (simp add: participants_of_def server_two_def)

lemma room_a_alive: "\<not> 5000000 \<ge> Date_of_row 0 (expires_at room_a)"
  by (simp add: Date_of_row_def room_a_def)

lemma chat_join_rejoin_server_two:
  "chat_join no_filter 0 server_two 5000000 ''s1'' (JStr ''AB12CD'') (JStr '' ann '') h
     = emit_socket
         (emit_others
            (emit_socket
               (server_two\<lparr>channels := (channels server_two)(''AB12CD'' := {|''s1'', ''s2''|}),
                   sockets := (sockets server_two)(''s1'' := sock_ann),
                   roomParticipants := (roomParticipants server_two)(''AB12CD'' \<mapsto> {|''s1'', ''s2''|})\<rparr>)
               ''s1'' (ChatHistory h))
            ''s1'' ''AB12CD'' (ChatSystem ''ann joined the room.'' 5000000))
         ''s1'' (ChatJoined ''AB12CD'' Single 7200 ''ann'')"
proof -
  have n: "normalise_code ''AB12CD'' = ''AB12CD''"
    by (rule normalise_code_wellformed [OF code_ok_AB12CD])
  have d: "db server_two = store_utc" by (simp add: server_two_def)
  have c: "channels server_two ''AB12CD'' = {|''s1'', ''s2''|}" by (simp add: server_two_def)
  have f: "\<not> failing store_utc OpFindByRoomId" by (simp add: store_utc_def)
  have r: "type_r room_a = Single" "expires_at room_a = 7200" "id_r room_a = 1"
    by (simp_all add: room_a_def)
  have i: "finsert ''s1'' {|''s1'', ''s2''|} = {|''s1'', ''s2''|}" by auto
  show ?thesis
    by (simp add: chat_join_def n d c f i code_ok_AB12CD trim_ann find_room_a_code Date_of_row_def
        participants_server_two Let_def r sock_ann_def no_filter_def del: One_nat_def)
qed

text \<open>
  At the sample server: a payload with a forged \<open>nickname\<close> field is handled as the
  payload without it, and the message is stored and delivered under \<open>ann\<close>, the
  nickname that the join request \<open>" ann "\<close> of \<open>s1\<close> recorded.
\<close>

theorem chat_message_nickname_from_session_witness:
  "content payload_forged = content payload_xy \<and> iv payload_forged = iv payload_xy
   \<and> chat_message no_filter server_two 8000000 ''s1'' payload_forged
       = chat_message no_filter server_two 8000000 ''s1'' payload_xy
   \<and> msg_x \<in> set (messages (db (chat_message no_filter server_two 8000000 ''s1'' payload_forged)))
   \<and> msg_x \<notin> set (messages (db server_two))
   \<and> nickname (sockets server_two ''s1'') = Some (nickname_m msg_x)
   \<and> nickname_m msg_x = ''ann''
   \<and> ChatMessage 2 ''ann'' ''x'' ''y'' 8000000
        \<in> set (delivered (chat_message no_filter server_two 8000000 ''s1'' payload_forged) ''s2'')
   \<and> nonempty_string (JStr '' ann '') = Some '' ann ''
   \<and> nickname (sockets (chat_join no_filter 0 server_two 5000000 ''s1'' (JStr ''AB12CD'')
                           (JStr '' ann '') []) ''s1'')
       = Some (no_filter (take 32 (trim '' ann '')))"
proof -
  note T = chat_message_nickname_from_session
             [of payload_forged payload_xy no_filter server_two 8000000 "''s1''"
                 "JStr '' ann ''" 0 "JStr ''AB12CD''" "[]"]
  note J = chat_message_nickname_from_session
             [of payload_forged payload_xy no_filter server_two 5000000 "''s1''"
                 "JStr '' ann ''" 0 "JStr ''AB12CD''" "[]"]
  have 1: "content payload_forged = content payload_xy \<and> iv payload_forged = iv payload_xy"
    by (simp add: payload_forged_def payload_xy_def)
  have 2: "chat_message no_filter server_two 8000000 ''s1'' payload_forged
             = chat_message no_filter server_two 8000000 ''s1'' payload_xy"
    using T 1 by blast
  have 3: "msg_x \<in> set (messages (db (chat_message no_filter server_two 8000000 ''s1'' payload_forged)))"
    by (simp add: 2 chat_message_server_two emit_room_def)
  have 4: "msg_x \<notin> set (messages (db server_two))"
    by (simp add: server_two_def store_utc_def msg_x_def msg_a_def)
  have 5: "nickname (sockets server_two ''s1'') = Some (nickname_m msg_x)"
    using T 3 4 by blast
  have 6: "nickname_m msg_x = ''ann''" by (simp add: msg_x_def)
  have 7: "nonempty_string (JStr '' ann '') = Some '' ann ''" by simp
  have 8: "nickname (sockets (chat_join no_filter 0 server_two 5000000 ''s1'' (JStr ''AB12CD'')
                           (JStr '' ann '') []) ''s1'')
       = Some (no_filter (take 32 (trim '' ann '')))"
    by (simp add: chat_join_rejoin_server_two emit_socket_def emit_others_def sock_ann_def trim_ann
        no_filter_def)
  have 9: "sockets (chat_join no_filter 0 server_two 5000000 ''s1'' (JStr ''AB12CD'')
                           (JStr '' ann '') []) ''s1'' = sockets server_two ''s1''
           \<or> nickname (sockets (chat_join no_filter 0 server_two 5000000 ''s1'' (JStr ''AB12CD'')
                           (JStr '' ann '') []) ''s1'')
               = Some (no_filter (take 32 (trim '' ann '')))"
    using J 7 by blast
  have 10: "ChatMessage 2 ''ann'' ''x'' ''y'' 8000000
        \<in> set (delivered (chat_message no_filter server_two 8000000 ''s1'' payload_forged) ''s2'')"
    by (simp add: 2 chat_message_server_two emit_room_def) (simp add: server_two_def)
  show ?thesis
    using 1 2 3 4 5 6 7 8 9 10 by blast
qed





section \<open>Joining and leaving: the capacity of single-kind rooms\<close>

lemma chat_join_registry_cases:
  fixes xss node_tz st now s roomCode nick history
  defines "st' \<equiv> chat_join xss node_tz st now s roomCode nick history"
  shows "(db st' = db st \<and> roomParticipants st' = roomParticipants st)
   \<or> (\<exists>rid db'. Room_deleteById (db st) rid = Inr db' \<and> db st' = db'
                  \<and> roomParticipants st' = roomParticipants st)
   \<or> (\<exists>code room. Room_findByCode (db st) code = Inr (Some room)
         \<and> (type_r room = Single \<longrightarrow>
               fcard (participants_of st code) < 2 \<or> s |\<in>| participants_of st code)
         \<and> db st' = db st
         \<and> roomParticipants st'
             = (roomParticipants st)(code \<mapsto> finsert s (participants_of st code)))"
proof (cases "nonempty_string roomCode")
  case None
  then show ?thesis by (simp add: st'_def chat_join_def)
next
  case rc: (Some rc)
  show ?thesis
  proof (cases "nonempty_string nick")
    case None
    then show ?thesis by (simp add: st'_def chat_join_def rc)
  next
    case nk: (Some nk)
    define code where "code = xss (normalise_code rc)"
    define cleanNick where "cleanNick = xss (take 32 (trim nk))"
    show ?thesis
    proof (cases "code_ok code \<and> cleanNick \<noteq> []")
      case False
      then show ?thesis
        by (auto simp: st'_def chat_join_def rc nk code_def cleanNick_def Let_def)
    next
      case valid: True
      show ?thesis
      proof (cases "Room_findByCode (db st) code")
        case (Inl e)
        then show ?thesis
          using valid
          by (simp add: st'_def chat_join_def rc nk code_def cleanNick_def Let_def emit_socket_def)
      next
        case found: (Inr found)
        show ?thesis
        proof (cases found)
          case None
          then show ?thesis
            using valid found
            by (simp add: st'_def chat_join_def rc nk code_def cleanNick_def Let_def emit_socket_def)
        next
          case room: (Some room)
          show ?thesis
          proof (cases "now \<ge> Date_of_row node_tz (expires_at room)")
            case True
            then show ?thesis
              using valid found room
              by (cases "Room_deleteById (db st) (id_r room)")
                 (auto simp: st'_def chat_join_def rc nk code_def cleanNick_def Let_def
                    emit_socket_def)
          next
            case alive: False
            show ?thesis
            proof (cases "type_r room = Single \<and> fcard (participants_of st code) \<ge> 2
                          \<and> s |\<notin>| participants_of st code")
              case True
              then show ?thesis
                using valid found room alive
                by (simp add: st'_def chat_join_def rc nk code_def [symmetric]
                    cleanNick_def [symmetric] Let_def emit_socket_def)
            next
              case False
              then have ok: "type_r room = Single \<longrightarrow>
                  fcard (participants_of st code) < 2 \<or> s |\<in>| participants_of st code"
                by auto
              have "db st' = db st \<and> roomParticipants st'
                      = (roomParticipants st)(code \<mapsto> finsert s (participants_of st code))"
                using valid found room alive False
                by (auto simp add: st'_def chat_join_def rc nk code_def [symmetric]
                    cleanNick_def [symmetric] Let_def emit_socket_def emit_others_def)
              then show ?thesis using found room ok by blast
            qed
          qed
        qed
      qed
    qed
  qed
qed

lemma distinct_codes_same_room:
  assumes "distinct (map room_code rs)" "x \<in> set rs" "y \<in> set rs" "room_code x = room_code y"
  shows "x = y"
  using assms by (meson distinct_map inj_on_def)

lemma findByCode_member:
  assumes "Room_findByCode d code = Inr (Some room)"
  shows "room \<in> set (rooms d) \<and> room_code room = code"
  using assms
  by (auto simp: Room_findByCode_def find_Some_iff split: if_splits)

lemma participants_of_upd:
  "participants_of (st\<lparr>roomParticipants := (roomParticipants st)(code \<mapsto> ps)\<rparr>) c
     = (if c = code then ps else participants_of st c)"
  by (simp add: participants_of_def)

lemma capacity_inv_chat_join:
  assumes inv: "capacity_inv st"
  shows "capacity_inv (chat_join xss node_tz st now s roomCode nick history)"
proof -
  define st' where "st' = chat_join xss node_tz st now s roomCode nick history"
  have d: "distinct (map room_code (rooms (db st)))"
    and b: "\<forall>r \<in> set (rooms (db st)). type_r r = Single \<longrightarrow>
              fcard (participants_of st (room_code r)) \<le> 2"
    using inv by (simp_all add: capacity_inv_def list_all_iff)
  consider
    (same) "db st' = db st" "roomParticipants st' = roomParticipants st"
  | (deleted) rid db' where "Room_deleteById (db st) rid = Inr db'" "db st' = db'"
      "roomParticipants st' = roomParticipants st"
  | (joined) code room where "Room_findByCode (db st) code = Inr (Some room)"
      "type_r room = Single \<longrightarrow>
         fcard (participants_of st code) < 2 \<or> s |\<in>| participants_of st code"
      "db st' = db st"
      "roomParticipants st' = (roomParticipants st)(code \<mapsto> finsert s (participants_of st code))"
    using chat_join_registry_cases [of xss node_tz st now s roomCode nick history]
    unfolding st'_def by blast
  then have "capacity_inv st'"
  proof cases
    case same
    then show ?thesis using inv by (simp add: capacity_inv_def participants_of_def)
  next
    case deleted
    have r: "rooms db' = filter (\<lambda>r. id_r r \<noteq> rid) (rooms (db st))"
      using deleted(1) by (auto simp: Room_deleteById_def split: if_splits)
    have "distinct (map room_code (rooms db'))"
      unfolding r using d by (rule distinct_map_filter)
    moreover have "\<forall>r \<in> set (rooms db'). type_r r = Single \<longrightarrow>
              fcard (participants_of st' (room_code r)) \<le> 2"
      using b by (simp add: r participants_of_def deleted(3))
    ultimately show ?thesis by (simp add: capacity_inv_def list_all_iff deleted(2))
  next
    case joined
    have m: "room \<in> set (rooms (db st))" "room_code room = code"
      using findByCode_member [OF joined(1)] by simp_all
    have p: "participants_of st' c
               = (if c = code then finsert s (participants_of st code) else participants_of st c)" for c
      by (simp add: participants_of_def joined(4))
    have "fcard (participants_of st' (room_code r)) \<le> 2"
      if r: "r \<in> set (rooms (db st))" and single: "type_r r = Single" for r
    proof (cases "room_code r = code")
      case False
      then show ?thesis using b r single by (simp add: p)
    next
      case True
      then have "r = room"
        using distinct_codes_same_room [OF d r m(1)] m(2) by simp
      then have s: "type_r room = Single" and le: "fcard (participants_of st code) \<le> 2"
        using single b m by auto
      have "fcard (finsert s (participants_of st code)) \<le> 2"
        using joined(2) s le by (auto simp: fcard_finsert_if)
      then show ?thesis using True by (simp add: p)
    qed
    then show ?thesis
      using d by (simp add: capacity_inv_def list_all_iff joined(3))
  qed
  then show ?thesis by (simp add: st'_def)
qed

lemma disconnect_db: "db (disconnect st now s) = db st"
  by (auto simp: disconnect_def Let_def emit_others_def split: option.splits)

lemma disconnect_participants:
  "participants_of (disconnect st now s) c |\<subseteq>| participants_of st c"
  by (auto simp: disconnect_def Let_def emit_others_def participants_of_def split: option.splits)

lemma capacity_inv_disconnect:
  assumes inv: "capacity_inv st"
  shows "capacity_inv (disconnect st now s)"
proof -
  have "fcard (participants_of (disconnect st now s) c) \<le> fcard (participants_of st c)" for c
    by (rule fcard_mono) (rule disconnect_participants)
  then show ?thesis
    using inv by (auto simp: capacity_inv_def list_all_iff disconnect_db intro: order_trans)
qed

text \<open>
  C5. For a \<open>chat:join\<close> that reaches a live single-kind room: with two or more sessions
  registered under the code and the joining session not among them, the handler only
  emits the room-full error to that session, and the store, the participant map, the
  channels and the sockets are as before; with fewer than two registered, or the session
  already registered, the join succeeds, the session is registered and receives the
  history and the confirmation; a session already registered leaves the registered set as
  it was. The bound of 2 on single-kind rooms is preserved by every \<open>chat:join\<close> and
  every \<open>disconnect\<close>, whatever their arguments.
\<close>

theorem single_room_capacity:
  "(join_reaches_room xss node_tz st now roomCode nick code cleanNick room \<and> type_r room = Single \<longrightarrow>
      (fcard (participants_of st code) \<ge> 2 \<and> s |\<notin>| participants_of st code \<longrightarrow>
         chat_join xss node_tz st now s roomCode nick history = emit_socket st s room_full)
      \<and> (fcard (participants_of st code) < 2 \<or> s |\<in>| participants_of st code \<longrightarrow>
           participants_of (chat_join xss node_tz st now s roomCode nick history) code
             = finsert s (participants_of st code)
           \<and> s |\<in>| channels (chat_join xss node_tz st now s roomCode nick history) code
           \<and> delivered (chat_join xss node_tz st now s roomCode nick history) s
               = delivered st s
                 @ [ChatHistory history, ChatJoined code Single (expires_at room) cleanNick])
      \<and> (s |\<in>| participants_of st code \<longrightarrow>
           participants_of (chat_join xss node_tz st now s roomCode nick history) code
             = participants_of st code))
   \<and> (capacity_inv st \<longrightarrow>
         capacity_inv (chat_join xss node_tz st now s roomCode nick history)
         \<and> capacity_inv (disconnect st now s))"
proof (intro conjI impI)
  assume "capacity_inv st"
  then show "capacity_inv (chat_join xss node_tz st now s roomCode nick history)"
    by (rule capacity_inv_chat_join)
next
  assume "capacity_inv st"
  then show "capacity_inv (disconnect st now s)"
    by (rule capacity_inv_disconnect)
next
  assume j: "join_reaches_room xss node_tz st now roomCode nick code cleanNick room \<and> type_r room = Single"
    and full: "2 \<le> fcard (participants_of st code) \<and> s |\<notin>| participants_of st code"
  show "chat_join xss node_tz st now s roomCode nick history = emit_socket st s room_full"
    using j full
    by (auto simp: join_reaches_room_def chat_join_def Let_def split: option.splits)
next
  assume j: "join_reaches_room xss node_tz st now roomCode nick code cleanNick room \<and> type_r room = Single"
    and free: "fcard (participants_of st code) < 2 \<or> s |\<in>| participants_of st code"
  have e: "chat_join xss node_tz st now s roomCode nick history
             = emit_socket
                 (emit_others
                    (emit_socket
                       (st\<lparr>channels := (channels st)(code := finsert s (channels st code)),
                           sockets := (sockets st)(s :=
                             \<lparr>currentRoom = Some code, nickname = Some cleanNick,
                              roomId = Some (id_r room)\<rparr>),
                           roomParticipants := (roomParticipants st)(code \<mapsto>
                             finsert s (participants_of st code))\<rparr>)
                       s (ChatHistory history))
                    s code (ChatSystem (cleanNick @ '' joined the room.'') now))
                 s (ChatJoined code Single (expires_at room) cleanNick)"
    using j free
    by (auto simp: join_reaches_room_def chat_join_def Let_def split: option.splits)
  show "participants_of (chat_join xss node_tz st now s roomCode nick history) code
             = finsert s (participants_of st code)"
    by (simp add: e emit_socket_def emit_others_def participants_of_def)
  show "s |\<in>| channels (chat_join xss node_tz st now s roomCode nick history) code"
    by (simp add: e emit_socket_def emit_others_def)
  show "delivered (chat_join xss node_tz st now s roomCode nick history) s
               = delivered st s
                 @ [ChatHistory history, ChatJoined code Single (expires_at room) cleanNick]"
    by (simp add: e emit_socket_def emit_others_def)
next
  assume j: "join_reaches_room xss node_tz st now roomCode nick code cleanNick room \<and> type_r room = Single"
    and mem: "s |\<in>| participants_of st code"
  have "roomParticipants (chat_join xss node_tz st now s roomCode nick history)
          = (roomParticipants st)(code \<mapsto> finsert s (participants_of st code))"
    using j mem
    by (auto simp: join_reaches_room_def chat_join_def Let_def emit_socket_def emit_others_def
        split: option.splits)
  moreover have "finsert s (participants_of st code) = participants_of st code"
    using mem by auto
  ultimately show "participants_of (chat_join xss node_tz st now s roomCode nick history) code
             = participants_of st code"
    by (simp add: participants_of_def)
qed

lemma trim_cat: "trim ''cat'' = ''cat''"
  by (simp add: trim_def is_ws_def)

lemma capacity_inv_server_two: "capacity_inv server_two"
  by (simp add: capacity_inv_def participants_of_def server_two_def store_utc_def room_a_def
      room_b_def fcard_finsert_if)

text \<open>
  At the sample server, where \<open>s1\<close> and \<open>s2\<close> are registered in the single-kind room
  \<open>AB12CD\<close>: the join of \<open>s3\<close> is refused with the room-full error and nothing else
  changes, the rejoin of \<open>s1\<close> succeeds and leaves the registered set as it was, and the
  bound holds before and after a join and a disconnect.
\<close>

theorem single_room_capacity_witness:
  "join_reaches_room no_filter 0 server_two 5000000 (JStr ''AB12CD'') (JStr ''cat'')
     ''AB12CD'' ''cat'' room_a
   \<and> type_r room_a = Single
   \<and> 2 \<le> fcard (participants_of server_two ''AB12CD'')
   \<and> ''s3'' |\<notin>| participants_of server_two ''AB12CD''
   \<and> chat_join no_filter 0 server_two 5000000 ''s3'' (JStr ''AB12CD'') (JStr ''cat'') []
       = emit_socket server_two ''s3'' room_full
   \<and> ''s1'' |\<in>| participants_of server_two ''AB12CD''
   \<and> participants_of (chat_join no_filter 0 server_two 5000000 ''s1'' (JStr ''AB12CD'') (JStr ''cat'') [])
        ''AB12CD'' = {|''s1'', ''s2''|}
   \<and> delivered (chat_join no_filter 0 server_two 5000000 ''s1'' (JStr ''AB12CD'') (JStr ''cat'') []) ''s1''
       = [ChatHistory [], ChatJoined ''AB12CD'' Single 7200 ''cat'']
   \<and> capacity_inv server_two
   \<and> capacity_inv (chat_join no_filter 0 server_two 5000000 ''s1'' (JStr ''AB12CD'') (JStr ''cat'') [])
   \<and> capacity_inv (disconnect server_two 5000000 ''s1'')"
proof -
  have n: "normalise_code ''AB12CD'' = ''AB12CD''"
    by (rule normalise_code_wellformed [OF code_ok_AB12CD])
  have d: "db server_two = store_utc" by (simp add: server_two_def)
  have 1: "join_reaches_room no_filter 0 server_two 5000000 (JStr ''AB12CD'') (JStr ''cat'')
             ''AB12CD'' ''cat'' room_a"
    by (simp add: join_reaches_room_def n code_ok_AB12CD trim_cat d find_room_a_code room_a_alive
          no_filter_def)
       (simp add: store_utc_def)
  have 2: "type_r room_a = Single" by (simp add: room_a_def)
  have 3: "2 \<le> fcard (participants_of server_two ''AB12CD'')"
    by (simp add: participants_server_two fcard_finsert_if)
  have 4: "''s3'' |\<notin>| participants_of server_two ''AB12CD''"
    by (simp add: participants_server_two)
  have 5: "''s1'' |\<in>| participants_of server_two ''AB12CD''"
    by (simp add: participants_server_two)
  have 6: "delivered server_two ''s1'' = []" by (simp add: server_two_def)
  have 7: "expires_at room_a = 7200" by (simp add: room_a_def)
  note A = single_room_capacity
             [of no_filter 0 server_two 5000000 "JStr ''AB12CD''" "JStr ''cat''" "''AB12CD''" "''cat''"
                 room_a "''s3''" "[]"]
  note B = single_room_capacity
             [of no_filter 0 server_two 5000000 "JStr ''AB12CD''" "JStr ''cat''" "''AB12CD''" "''cat''"
                 room_a "''s1''" "[]"]
  have a: "chat_join no_filter 0 server_two 5000000 ''s3'' (JStr ''AB12CD'') (JStr ''cat'') []
             = emit_socket server_two ''s3'' room_full"
    using A 1 2 3 4 by blast
  have b: "participants_of (chat_join no_filter 0 server_two 5000000 ''s1'' (JStr ''AB12CD'')
                              (JStr ''cat'') []) ''AB12CD'' = participants_of server_two ''AB12CD''"
    using B 1 2 5 by blast
  have c: "delivered (chat_join no_filter 0 server_two 5000000 ''s1'' (JStr ''AB12CD'') (JStr ''cat'') []) ''s1''
             = delivered server_two ''s1'' @ [ChatHistory [], ChatJoined ''AB12CD'' Single (expires_at room_a) ''cat'']"
    using B 1 2 5 by blast
  have e: "capacity_inv (chat_join no_filter 0 server_two 5000000 ''s1'' (JStr ''AB12CD'') (JStr ''cat'') [])
           \<and> capacity_inv (disconnect server_two 5000000 ''s1'')"
    using B capacity_inv_server_two by blast
  show ?thesis
    using 1 2 3 4 5 a b c e capacity_inv_server_two
    by (simp add: participants_server_two 6 7)
qed





section \<open>The sweep\<close>

lemma deleteById_ok:
  assumes "\<not> failing d (OpDeleteById i)"
  shows "Room_deleteById d i
           = Inr (d\<lparr>rooms := filter (\<lambda>r. id_r r \<noteq> i) (rooms d),
                    messages := filter (\<lambda>m. room_id m \<noteq> i) (messages d)\<rparr>)"
  using assms by (simp add: Room_deleteById_def)

lemma notify_and_detach_fields:
  "db (notify_and_detach st r) = db st"
  "roomParticipants (notify_and_detach st r) = roomParticipants st"
  "sockets (notify_and_detach st r) = sockets st"
  "channels (notify_and_detach st r) c = (if c = room_code r then {||} else channels st c)"
  "delivered (notify_and_detach st r) s
     = (if s |\<in>| channels st (room_code r) then delivered st s @ [session_expired]
        else delivered st s)"
  by (simp_all add: notify_and_detach_def emit_room_def Let_def)

lemma sweep_rooms_effect:
  assumes "\<forall>r \<in> set rows. \<not> failing (db st) (OpDeleteById (id_r r))"
    and "distinct (map room_code rows)"
  shows "rooms (db (sweep_rooms st rows))
           = filter (\<lambda>x. id_r x \<notin> id_r ` set rows) (rooms (db st))
       \<and> messages (db (sweep_rooms st rows))
           = filter (\<lambda>m. room_id m \<notin> id_r ` set rows) (messages (db st))
       \<and> failing (db (sweep_rooms st rows)) = failing (db st)
       \<and> (\<forall>c. channels (sweep_rooms st rows) c
              = (if c \<in> room_code ` set rows then {||} else channels st c))
       \<and> roomParticipants (sweep_rooms st rows) = roomParticipants st
       \<and> sockets (sweep_rooms st rows) = sockets st
       \<and> (\<forall>s. delivered (sweep_rooms st rows) s
              = delivered st s
                @ replicate (length (filter (\<lambda>r. s |\<in>| channels st (room_code r)) rows))
                    session_expired)"
  using assms
proof (induction rows arbitrary: st)
  case Nil
  then show ?case by simp
next
  case (Cons r rest)
  define db' where
    "db' = (db st)\<lparr>rooms := filter (\<lambda>x. id_r x \<noteq> id_r r) (rooms (db st)),
                   messages := filter (\<lambda>m. room_id m \<noteq> id_r r) (messages (db st))\<rparr>"
  define st3 where "st3 = (notify_and_detach st r)\<lparr>db := db'\<rparr>"
  have step: "sweep_rooms st (r # rest) = sweep_rooms st3 rest"
    using Cons.prems(1)
    by (simp add: st3_def db'_def notify_and_detach_fields deleteById_ok Let_def)
  have f3: "failing (db st3) = failing (db st)"
    by (simp add: st3_def db'_def)
  have p1: "\<forall>x \<in> set rest. \<not> failing (db st3) (OpDeleteById (id_r x))"
    using Cons.prems(1) by (simp add: f3)
  have p2: "distinct (map room_code rest)"
    using Cons.prems(2) by simp
  note IH = Cons.IH [OF p1 p2]
  have fresh: "\<forall>x \<in> set rest. room_code x \<noteq> room_code r"
  proof
    fix x assume "x \<in> set rest"
    then have "room_code x \<in> room_code ` set rest" by (rule imageI)
    then show "room_code x \<noteq> room_code r" using Cons.prems(2) by auto
  qed
  have ch3: "channels st3 c = (if c = room_code r then {||} else channels st c)" for c
    by (simp add: st3_def notify_and_detach_fields)
  have dl3: "delivered st3 s
               = (if s |\<in>| channels st (room_code r) then delivered st s @ [session_expired]
                  else delivered st s)" for s
    by (simp add: st3_def notify_and_detach_fields)
  have flt: "filter (\<lambda>x. s |\<in>| channels st3 (room_code x)) rest
               = filter (\<lambda>x. s |\<in>| channels st (room_code x)) rest" for s
    using fresh by (intro filter_cong) (auto simp: ch3)
  have d3: "rooms (db st3) = filter (\<lambda>x. id_r x \<noteq> id_r r) (rooms (db st))"
    "messages (db st3) = filter (\<lambda>m. room_id m \<noteq> id_r r) (messages (db st))"
    "roomParticipants st3 = roomParticipants st" "sockets st3 = sockets st"
    by (simp_all add: st3_def db'_def notify_and_detach_fields)
  have rooms: "rooms (db (sweep_rooms st (r # rest)))
                 = filter (\<lambda>x. id_r x \<notin> id_r ` set (r # rest)) (rooms (db st))"
    unfolding step using IH by (simp add: d3 conj_commute)
  have msgs: "messages (db (sweep_rooms st (r # rest)))
                 = filter (\<lambda>m. room_id m \<notin> id_r ` set (r # rest)) (messages (db st))"
    unfolding step using IH by (simp add: d3 conj_commute)
  have fail: "failing (db (sweep_rooms st (r # rest))) = failing (db st)"
    unfolding step using IH by (simp add: f3)
  have chan: "\<forall>c. channels (sweep_rooms st (r # rest)) c
              = (if c \<in> room_code ` set (r # rest) then {||} else channels st c)"
    unfolding step using IH by (simp add: ch3)
  have part: "roomParticipants (sweep_rooms st (r # rest)) = roomParticipants st"
    unfolding step using IH by (simp add: d3)
  have sock: "sockets (sweep_rooms st (r # rest)) = sockets st"
    unfolding step using IH by (simp add: d3)
  have dlv: "\<forall>s. delivered (sweep_rooms st (r # rest)) s
              = delivered st s
                @ replicate (length (filter (\<lambda>x. s |\<in>| channels st (room_code x)) (r # rest)))
                    session_expired"
    unfolding step using IH by (simp add: flt dl3)
  show ?case
    using rooms msgs fail chan part sock dlv by blast
qed

lemma sweep_rooms_stops:
  assumes "\<forall>x \<in> set pre. \<not> failing (db st) (OpDeleteById (id_r x))"
    and "failing (db st) (OpDeleteById (id_r r))"
  shows "sweep_rooms st (pre @ r # post) = notify_and_detach (sweep_rooms st pre) r"
  using assms
proof (induction pre arbitrary: st)
  case Nil
  then show ?case
    by (simp add: Room_deleteById_def notify_and_detach_fields Let_def)
next
  case (Cons a pre)
  define st3 where
    "st3 = (notify_and_detach st a)
             \<lparr>db := (db st)\<lparr>rooms := filter (\<lambda>x. id_r x \<noteq> id_r a) (rooms (db st)),
                   messages := filter (\<lambda>m. room_id m \<noteq> id_r a) (messages (db st))\<rparr>\<rparr>"
  have s1: "sweep_rooms st ((a # pre) @ r # post) = sweep_rooms st3 (pre @ r # post)"
    using Cons.prems(1) by (simp add: st3_def notify_and_detach_fields deleteById_ok Let_def)
  have s2: "sweep_rooms st (a # pre) = sweep_rooms st3 pre"
    using Cons.prems(1) by (simp add: st3_def notify_and_detach_fields deleteById_ok Let_def)
  have f3: "failing (db st3) = failing (db st)" by (simp add: st3_def)
  show ?case
    unfolding s1 s2
    by (rule Cons.IH) (use Cons.prems in \<open>simp_all add: f3\<close>)
qed

lemma findExpired_rows:
  assumes "Room_findExpired d now = Inr rows"
  shows "rows = filter (\<lambda>r. expires_at r \<le> NOW d now \<and> is_active r) (rooms d)"
  using assms by (auto simp: Room_findExpired_def split: if_splits)






lemma room_fields:
  "id_r room_a = 1" "room_code room_a = ''AB12CD''" "is_active room_a" "expires_at room_a = 7200"
  "id_r room_b = 2" "room_code room_b = ''ZZ99ZZ''" "is_active room_b" "expires_at room_b = 7200"
  "room_a \<noteq> room_b" "room_id msg_a = 1"
  by (simp_all add: room_a_def room_b_def msg_a_def)



text \<open>
  C6, as the code has it. The \<open>try\<close> of the sweep encloses the whole loop. When the
  deletion of an expired room \<open>r\<close> is refused, after the rooms \<open>pre\<close> before it were
  deleted, the firing ends there. The rooms of \<open>pre\<close> are evicted: they are no longer
  stored, their channels are empty and their messages are gone. Room \<open>r\<close> was notified
  and detached, and is still stored. The rooms \<open>post\<close> after it are not processed in this
  firing: they are still stored, their channels are as before, and no notification was
  emitted for them; a socket has received one notification for each room of \<open>pre\<close> and
  \<open>r\<close> whose channel it was in, and nothing else.
\<close>

theorem sweep_stops_at_first_failure:
  assumes found: "Room_findExpired (db st) now = Inr (pre @ r # post)"
    and uniq: "distinct (map room_code (rooms (db st)))"
    and pk: "distinct (map id_r (rooms (db st)))"
    and ok: "\<forall>x \<in> set pre. \<not> failing (db st) (OpDeleteById (id_r x))"
    and bad: "failing (db st) (OpDeleteById (id_r r))"
  shows "cleanup_tick st now = notify_and_detach (sweep_rooms st pre) r
       \<and> (\<forall>x \<in> set pre.
             x \<notin> set (rooms (db (cleanup_tick st now)))
             \<and> channels (cleanup_tick st now) (room_code x) = {||}
             \<and> (\<forall>m \<in> set (messages (db (cleanup_tick st now))). room_id m \<noteq> id_r x))
       \<and> r \<in> set (rooms (db (cleanup_tick st now)))
       \<and> channels (cleanup_tick st now) (room_code r) = {||}
       \<and> (\<forall>x \<in> set post.
             x \<in> set (rooms (db (cleanup_tick st now)))
             \<and> channels (cleanup_tick st now) (room_code x) = channels st (room_code x))
       \<and> messages (db (cleanup_tick st now))
           = filter (\<lambda>m. room_id m \<notin> id_r ` set pre) (messages (db st))
       \<and> (\<forall>s. delivered (cleanup_tick st now) s
              = delivered st s
                @ replicate (length (filter (\<lambda>x. s |\<in>| channels st (room_code x)) (pre @ [r])))
                    session_expired)"
proof -
  define rows where "rows = pre @ r # post"
  have rows: "rows = filter (\<lambda>r. expires_at r \<le> NOW (db st) now \<and> is_active r) (rooms (db st))"
    using findExpired_rows [OF found] by (simp add: rows_def)
  have sub: "set rows \<subseteq> set (rooms (db st))" by (auto simp: rows)
  have dc: "distinct (map room_code rows)"
    unfolding rows using uniq by (rule distinct_map_filter)
  have di: "distinct (map id_r rows)"
    unfolding rows using pk by (rule distinct_map_filter)
  have dcp: "distinct (map room_code pre)" using dc by (simp add: rows_def)
  have code_r: "room_code r \<notin> room_code ` set pre"
    using dc by (auto simp: rows_def)
  have code_post: "\<forall>x \<in> set post. room_code x \<notin> room_code ` set pre \<and> room_code x \<noteq> room_code r"
  proof
    fix x assume "x \<in> set post"
    then have m: "room_code x \<in> room_code ` set post" by (rule imageI)
    show "room_code x \<notin> room_code ` set pre \<and> room_code x \<noteq> room_code r"
      using dc m by (auto simp: rows_def)
  qed
  have id_r: "id_r r \<notin> id_r ` set pre"
    using di by (auto simp: rows_def)
  have id_post: "\<forall>x \<in> set post. id_r x \<notin> id_r ` set pre"
  proof
    fix x assume "x \<in> set post"
    then have m: "id_r x \<in> id_r ` set post" by (rule imageI)
    show "id_r x \<notin> id_r ` set pre"
      using di m by (auto simp: rows_def)
  qed
  note E = sweep_rooms_effect [OF ok dcp]
  have tick: "cleanup_tick st now = notify_and_detach (sweep_rooms st pre) r"
    using sweep_rooms_stops [OF ok bad, of post] by (simp add: cleanup_tick_def found)
  have rms: "rooms (db (cleanup_tick st now))
               = filter (\<lambda>x. id_r x \<notin> id_r ` set pre) (rooms (db st))"
    using E by (simp add: tick notify_and_detach_fields)
  have msgs: "messages (db (cleanup_tick st now))
               = filter (\<lambda>m. room_id m \<notin> id_r ` set pre) (messages (db st))"
    using E by (simp add: tick notify_and_detach_fields)
  have chan: "channels (cleanup_tick st now) c
                = (if c = room_code r then {||}
                   else if c \<in> room_code ` set pre then {||} else channels st c)" for c
    using E by (simp add: tick notify_and_detach_fields)
  have 2: "\<forall>x \<in> set pre.
             x \<notin> set (rooms (db (cleanup_tick st now)))
             \<and> channels (cleanup_tick st now) (room_code x) = {||}
             \<and> (\<forall>m \<in> set (messages (db (cleanup_tick st now))). room_id m \<noteq> id_r x)"
  proof
    fix x assume x: "x \<in> set pre"
    have a: "x \<notin> set (rooms (db (cleanup_tick st now)))" using x by (simp add: rms)
    have b: "channels (cleanup_tick st now) (room_code x) = {||}" using x by (simp add: chan)
    have c: "\<forall>m \<in> set (messages (db (cleanup_tick st now))). room_id m \<noteq> id_r x"
      using x by (auto simp: msgs)
    show "x \<notin> set (rooms (db (cleanup_tick st now)))
             \<and> channels (cleanup_tick st now) (room_code x) = {||}
             \<and> (\<forall>m \<in> set (messages (db (cleanup_tick st now))). room_id m \<noteq> id_r x)"
      using a b c by blast
  qed
  have 3: "r \<in> set (rooms (db (cleanup_tick st now)))"
    using sub id_r by (simp add: rms rows_def)
  have c3: "channels (cleanup_tick st now) (room_code r) = {||}"
    by (simp add: chan)
  have 4: "\<forall>x \<in> set post.
             x \<in> set (rooms (db (cleanup_tick st now)))
             \<and> channels (cleanup_tick st now) (room_code x) = channels st (room_code x)"
  proof
    fix x assume x: "x \<in> set post"
    have "x \<in> set (rooms (db st))" using sub x by (auto simp: rows_def)
    then have a: "x \<in> set (rooms (db (cleanup_tick st now)))"
      using id_post x by (simp add: rms)
    have b: "channels (cleanup_tick st now) (room_code x) = channels st (room_code x)"
      using code_post x by (simp add: chan)
    show "x \<in> set (rooms (db (cleanup_tick st now)))
             \<and> channels (cleanup_tick st now) (room_code x) = channels st (room_code x)"
      using a b by (rule conjI)
  qed
  have 5: "\<forall>s. delivered (cleanup_tick st now) s
              = delivered st s
                @ replicate (length (filter (\<lambda>x. s |\<in>| channels st (room_code x)) (pre @ [r])))
                    session_expired"
    using E code_r by (simp add: tick notify_and_detach_fields replicate_append_same)
  show ?thesis
    using tick 2 3 c3 4 msgs 5 by blast
qed

lemma server_faulty_fields:
  "rooms (db server_faulty) = [room_a, room_b]"
  "failing (db server_faulty) op = (op = OpDeleteById 1)"
  "session_tz (db server_faulty) = 0"
  "channels server_faulty ''AB12CD'' = {|''s1'', ''s2''|}"
  "channels server_faulty ''ZZ99ZZ'' = {|''s3''|}"
  "delivered server_faulty s = []"
  by (simp_all add: server_faulty_def server_two_def store_utc_def)

lemma findExpired_server_faulty:
  "Room_findExpired (db server_faulty) 8000000 = Inr ([] @ room_a # [room_b])"
  by (simp add: Room_findExpired_def NOW_def server_faulty_fields room_fields)

lemma server_three_fields:
  "rooms (db server_three) = [room_a, room_b, room_c]"
  "messages (db server_three) = [msg_a]"
  "failing (db server_three) op = (op = OpDeleteById 2)"
  "session_tz (db server_three) = 0"
  "channels server_three ''AB12CD'' = {|''s1''|}"
  "channels server_three ''ZZ99ZZ'' = {|''s2''|}"
  "channels server_three ''QQ77QQ'' = {|''s3''|}"
  "delivered server_three s = []"
  by (simp_all add: server_three_def)

lemma room_c_fields:
  "id_r room_c = 3" "room_code room_c = ''QQ77QQ''" "is_active room_c" "expires_at room_c = 7200"
  by (simp_all add: room_c_def)

lemma findExpired_server_three:
  "Room_findExpired (db server_three) 8000000 = Inr ([room_a] @ room_b # [room_c])"
  by (simp add: Room_findExpired_def NOW_def server_three_fields room_fields room_c_fields)

text \<open>
  At the sample server with three expired rooms, whose store refuses to delete room 2.
  Room \<open>AB12CD\<close>, processed first, is evicted: it is not stored any more, its channel is
  empty, its message is gone and \<open>s1\<close> was notified. The firing ends at room \<open>ZZ99ZZ\<close>:
  \<open>s2\<close> was notified and the channel is empty, and the room is still stored. Room
  \<open>QQ77QQ\<close> is still stored, its channel still holds \<open>s3\<close>, and \<open>s3\<close> received nothing.
\<close>

theorem sweep_stops_at_first_failure_witness:
  "Room_findExpired (db server_three) 8000000 = Inr ([room_a] @ room_b # [room_c])
   \<and> distinct (map room_code (rooms (db server_three)))
   \<and> distinct (map id_r (rooms (db server_three)))
   \<and> \<not> failing (db server_three) (OpDeleteById (id_r room_a))
   \<and> failing (db server_three) (OpDeleteById (id_r room_b))
   \<and> room_a \<notin> set (rooms (db (cleanup_tick server_three 8000000)))
   \<and> channels (cleanup_tick server_three 8000000) ''AB12CD'' = {||}
   \<and> messages (db (cleanup_tick server_three 8000000)) = []
   \<and> room_b \<in> set (rooms (db (cleanup_tick server_three 8000000)))
   \<and> channels (cleanup_tick server_three 8000000) ''ZZ99ZZ'' = {||}
   \<and> room_c \<in> set (rooms (db (cleanup_tick server_three 8000000)))
   \<and> channels (cleanup_tick server_three 8000000) ''QQ77QQ'' = {|''s3''|}
   \<and> delivered (cleanup_tick server_three 8000000) ''s1'' = [session_expired]
   \<and> delivered (cleanup_tick server_three 8000000) ''s2'' = [session_expired]
   \<and> delivered (cleanup_tick server_three 8000000) ''s3'' = []"
proof -
  have 1: "Room_findExpired (db server_three) 8000000 = Inr ([room_a] @ room_b # [room_c])"
    by (rule findExpired_server_three)
  have 2: "distinct (map room_code (rooms (db server_three)))"
    by (simp add: server_three_fields room_fields room_c_fields)
  have 3: "distinct (map id_r (rooms (db server_three)))"
    by (simp add: server_three_fields room_fields room_c_fields)
  have 4: "\<forall>x \<in> set [room_a]. \<not> failing (db server_three) (OpDeleteById (id_r x))"
    by (simp add: server_three_fields room_fields)
  have 5: "failing (db server_three) (OpDeleteById (id_r room_b))"
    by (simp add: server_three_fields room_fields)
  note T = sweep_stops_at_first_failure [OF 1 2 3 4 5]
  have 6: "room_a \<notin> set (rooms (db (cleanup_tick server_three 8000000)))
           \<and> channels (cleanup_tick server_three 8000000) (room_code room_a) = {||}"
    using T [THEN conjunct2, THEN conjunct1] by simp
  have 7: "room_b \<in> set (rooms (db (cleanup_tick server_three 8000000)))"
    using T [THEN conjunct2, THEN conjunct2, THEN conjunct1] .
  have 8: "channels (cleanup_tick server_three 8000000) (room_code room_b) = {||}"
    using T [THEN conjunct2, THEN conjunct2, THEN conjunct2, THEN conjunct1] .
  have 9: "room_c \<in> set (rooms (db (cleanup_tick server_three 8000000)))
           \<and> channels (cleanup_tick server_three 8000000) (room_code room_c)
               = channels server_three (room_code room_c)"
    using T [THEN conjunct2, THEN conjunct2, THEN conjunct2, THEN conjunct2, THEN conjunct1]
    by simp
  have 10: "messages (db (cleanup_tick server_three 8000000))
              = filter (\<lambda>m. room_id m \<notin> id_r ` set [room_a]) (messages (db server_three))"
    using T [THEN conjunct2, THEN conjunct2, THEN conjunct2, THEN conjunct2, THEN conjunct2,
             THEN conjunct1] .
  have 11: "delivered (cleanup_tick server_three 8000000) s
              = delivered server_three s
                @ replicate (length (filter (\<lambda>x. s |\<in>| channels server_three (room_code x))
                                       ([room_a] @ [room_b])))
                    session_expired" for s
    using T [THEN conjunct2, THEN conjunct2, THEN conjunct2, THEN conjunct2, THEN conjunct2,
             THEN conjunct2] by blast
  have na: "\<not> failing (db server_three) (OpDeleteById (id_r room_a))"
    by (simp add: server_three_fields room_fields)
  show ?thesis
    using 1 2 3 na 5 6 7 8 9 10 11 [of "''s1''"] 11 [of "''s2''"] 11 [of "''s3''"]
    by (simp add: server_three_fields room_fields room_c_fields)
qed

text \<open>
  C6 as stated fails: in that firing the deletion of room \<open>AB12CD\<close> fails, the deletion
  of room \<open>ZZ99ZZ\<close> would succeed, and room \<open>ZZ99ZZ\<close>, expired as well, is neither
  notified nor detached nor deleted.
\<close>

theorem sweep_abandons_remaining_rooms:
  "Room_findExpired (db server_faulty) 8000000 = Inr [room_a, room_b]
   \<and> failing (db server_faulty) (OpDeleteById (id_r room_a))
   \<and> \<not> failing (db server_faulty) (OpDeleteById (id_r room_b))
   \<and> room_b \<in> set (rooms (db (cleanup_tick server_faulty 8000000)))
   \<and> channels (cleanup_tick server_faulty 8000000) (room_code room_b) = {|''s3''|}
   \<and> delivered (cleanup_tick server_faulty 8000000) ''s3'' = []"
proof -
  have f: "Room_findExpired (db server_faulty) 8000000 = Inr [room_a, room_b]"
    using findExpired_server_faulty by simp
  have bad: "failing (db server_faulty) (OpDeleteById (id_r room_a))"
    and good: "\<not> failing (db server_faulty) (OpDeleteById (id_r room_b))"
    by (simp_all add: server_faulty_fields room_fields)
  have "sweep_rooms server_faulty ([] @ room_a # [room_b])
          = notify_and_detach (sweep_rooms server_faulty []) room_a"
    by (rule sweep_rooms_stops) (simp_all add: bad)
  then have tick: "cleanup_tick server_faulty 8000000 = notify_and_detach server_faulty room_a"
    by (simp add: cleanup_tick_def f)
  show ?thesis
    using f bad good
    by (simp add: tick notify_and_detach_fields server_faulty_fields room_fields)
qed





section \<open>Message order\<close>

lemma chat_message_relay:
  assumes "currentRoom (sockets st s) = Some code" "nickname (sockets st s) = Some nk"
    "roomId (sockets st s) = Some rid" "code \<noteq> []" "nk \<noteq> []"
    "content p = JStr c" "c \<noteq> []" "iv p = JStr i" "i \<noteq> []" "length c \<le> 65536"
    "Room_findByCode (db st) code = Inr (Some room)"
    "Message_create (db st) now rid nk (xss (trim c)) (xss (trim i)) = Inr (msgId, db')"
  shows "chat_message xss st now s p
           = emit_room (st\<lparr>db := db'\<rparr>) code
               (ChatMessage msgId nk (xss (trim c)) (xss (trim i)) now)"
  using assms by (simp add: chat_message_def Let_def)

lemma trim_m: "trim ''m1'' = ''m1''" "trim ''m2'' = ''m2''" "trim ''m3'' = ''m3''" "trim ''v'' = ''v''"
  by (simp_all add: trim_def is_ws_def)

lemma three_sends_result:
  "messages (db (one_send n1)) = [msg_a, sample_msg 2 ''ann'' ''m1'' (n1 div 1000)]
   \<and> messages (db (two_sends n1 n2))
       = [msg_a, sample_msg 2 ''ann'' ''m1'' (n1 div 1000),
          sample_msg 3 ''bob'' ''m2'' (n2 div 1000)]
   \<and> db (three_sends n1 n2 n3)
     = store_utc\<lparr>messages := [msg_a, sample_msg 2 ''ann'' ''m1'' (n1 div 1000),
                                sample_msg 3 ''bob'' ''m2'' (n2 div 1000),
                                sample_msg 4 ''ann'' ''m3'' (n3 div 1000)],
                 next_message_id := 5\<rparr>
   \<and> delivered (three_sends n1 n2 n3) ''s2''
       = [ChatMessage 2 ''ann'' ''m1'' ''v'' n1, ChatMessage 3 ''bob'' ''m2'' ''v'' n2,
          ChatMessage 4 ''ann'' ''m3'' ''v'' n3]"
proof -
  define d1 where "d1 = store_utc\<lparr>messages := [msg_a, sample_msg 2 ''ann'' ''m1'' (n1 div 1000)],
                 next_message_id := 3\<rparr>"
  define d2 where "d2 = store_utc\<lparr>messages := [msg_a, sample_msg 2 ''ann'' ''m1'' (n1 div 1000),
                                sample_msg 3 ''bob'' ''m2'' (n2 div 1000)],
                 next_message_id := 4\<rparr>"
  define d3 where "d3 = store_utc\<lparr>messages := [msg_a, sample_msg 2 ''ann'' ''m1'' (n1 div 1000),
                                sample_msg 3 ''bob'' ''m2'' (n2 div 1000),
                                sample_msg 4 ''ann'' ''m3'' (n3 div 1000)],
                 next_message_id := 5\<rparr>"
  define e1 where "e1 = ChatMessage 2 ''ann'' ''m1'' ''v'' n1"
  define e2 where "e2 = ChatMessage 3 ''bob'' ''m2'' ''v'' n2"
  define e3 where "e3 = ChatMessage 4 ''ann'' ''m3'' ''v'' n3"
  define st1 where "st1 = emit_room (server_group\<lparr>db := d1\<rparr>) ''ZZ99ZZ'' e1"
  define st2 where "st2 = emit_room (st1\<lparr>db := d2\<rparr>) ''ZZ99ZZ'' e2"
  define st3 where "st3 = emit_room (st2\<lparr>db := d3\<rparr>) ''ZZ99ZZ'' e3"
  have c1: "Message_create store_utc n1 2 ''ann'' ''m1'' ''v'' = Inr (2, d1)"
    by (simp add: Message_create_def store_utc_def room_a_def room_b_def sample_msg_def NOW_def
        Let_def d1_def)
  have c2: "Message_create d1 n2 2 ''bob'' ''m2'' ''v'' = Inr (3, d2)"
    by (simp add: Message_create_def store_utc_def room_a_def room_b_def sample_msg_def NOW_def
        Let_def d1_def d2_def)
  have c3: "Message_create d2 n3 2 ''ann'' ''m3'' ''v'' = Inr (4, d3)"
    by (simp add: Message_create_def store_utc_def room_a_def room_b_def sample_msg_def NOW_def
        Let_def d2_def d3_def)
  have f: "Room_findByCode store_utc ''ZZ99ZZ'' = Inr (Some room_b)"
    "Room_findByCode d1 ''ZZ99ZZ'' = Inr (Some room_b)"
    "Room_findByCode d2 ''ZZ99ZZ'' = Inr (Some room_b)"
    by (simp_all add: Room_findByCode_def store_utc_def room_a_def room_b_def d1_def d2_def)
  have s1: "chat_message no_filter server_group n1 ''s1'' (payload_of ''m1'') = st1"
    unfolding st1_def e1_def
    apply (rule chat_message_relay [where xss = no_filter and c = "''m1''" and i = "''v''" and room = room_b and rid = 2
             and msgId = 2 and db' = d1, simplified trim_m no_filter_def])
    apply (simp_all add: server_group_def payload_of_def f)
    apply (rule c1)
    done
  have s2: "chat_message no_filter st1 n2 ''s2'' (payload_of ''m2'') = st2"
    unfolding st2_def e2_def
    apply (rule chat_message_relay [where xss = no_filter and c = "''m2''" and i = "''v''" and room = room_b and rid = 2
             and msgId = 3 and db' = d2, simplified trim_m no_filter_def])
    apply (simp_all add: st1_def emit_room_def server_group_def payload_of_def f)
    apply (rule c2)
    done
  have s3: "chat_message no_filter st2 n3 ''s1'' (payload_of ''m3'') = st3"
    unfolding st3_def e3_def
    apply (rule chat_message_relay [where xss = no_filter and c = "''m3''" and i = "''v''" and room = room_b and rid = 2
             and msgId = 4 and db' = d3, simplified trim_m no_filter_def])
    apply (simp_all add: st2_def st1_def emit_room_def server_group_def payload_of_def f)
    apply (rule c3)
    done
  have t1: "one_send n1 = st1" by (simp add: one_send_def s1)
  have t2: "two_sends n1 n2 = st2" by (simp add: two_sends_def t1 s2)
  have t3: "three_sends n1 n2 n3 = st3" by (simp add: three_sends_def t2 s3)
  have a: "messages (db (one_send n1)) = [msg_a, sample_msg 2 ''ann'' ''m1'' (n1 div 1000)]"
    by (simp add: t1 st1_def emit_room_def d1_def)
  have b: "messages (db (two_sends n1 n2))
       = [msg_a, sample_msg 2 ''ann'' ''m1'' (n1 div 1000),
          sample_msg 3 ''bob'' ''m2'' (n2 div 1000)]"
    by (simp add: t2 st2_def emit_room_def d2_def)
  have c: "db (three_sends n1 n2 n3) = d3"
    by (simp add: t3 st3_def emit_room_def)
  have d: "delivered (three_sends n1 n2 n3) ''s2'' = [e1, e2, e3]"
    by (simp add: t3 st3_def st2_def st1_def emit_room_def) (simp add: server_group_def)
  show ?thesis
    using a b c d unfolding d3_def e1_def e2_def e3_def by blast
qed

lemma chat_message_persisted:
  assumes m: "messages (db (chat_message xss st now s p)) = messages (db st) @ [m]"
    and c: "currentRoom (sockets st s) = Some code"
    and r: "roomId (sockets st s) = Some rid"
  shows "room_id m = rid \<and> sent_at m = NOW (db st) now
       \<and> sockets (chat_message xss st now s p) = sockets st
       \<and> channels (chat_message xss st now s p) = channels st
       \<and> session_tz (db (chat_message xss st now s p)) = session_tz (db st)
       \<and> (\<forall>s'. delivered (chat_message xss st now s p) s'
              = (if s' |\<in>| channels st code then delivered st s' @ [event_of m now]
                 else delivered st s'))"
proof -
  consider
    (drop) "chat_message xss st now s p = st"
  | (gone) "chat_message xss st now s p = emit_socket st s (RoomExpired ''Room no longer exists.'')"
  | (relay) code' nk rid' c' i' msgId db' where
      "currentRoom (sockets st s) = Some code'" "nickname (sockets st s) = Some nk"
      "roomId (sockets st s) = Some rid'"
      "Message_create (db st) now rid' nk (xss (trim c')) (xss (trim i')) = Inr (msgId, db')"
      "chat_message xss st now s p
         = emit_room (st\<lparr>db := db'\<rparr>) code'
             (ChatMessage msgId nk (xss (trim c')) (xss (trim i')) now)"
    using chat_message_cases [of xss st now s p] by blast
  then show ?thesis
  proof cases
    case drop
    then show ?thesis using m by simp
  next
    case gone
    then show ?thesis using m by (simp add: emit_socket_def)
  next
    case relay
    have eq: "code' = code" "rid' = rid" using relay(1,3) c r by simp_all
    note R = Message_create_result [OF relay(4)]
    have mm: "m = \<lparr>id_m = next_message_id (db st), room_id = rid, nickname_m = nk,
                   content_m = xss (trim c'), iv_m = xss (trim i'), sent_at = NOW (db st) now\<rparr>"
      using m R by (simp add: relay(5) eq emit_room_def)
    show ?thesis
      using R by (simp add: relay(5) eq mm event_of_def emit_room_def)
  qed
qed

lemma sorted_by_key_unique:
  assumes "sorted (map f xs)" "mset xs = mset ys" "sorted (map f ys)" "distinct (map f ys)"
  shows "xs = ys"
proof -
  have ms: "mset (map f xs) = mset (map f ys)" using assms(2) by simp
  have dx: "distinct (map f xs)"
    using ms assms(4) by (metis mset_eq_imp_distinct_iff)
  have "set (map f xs) = set (map f ys)" using ms by (rule mset_eq_setD)
  then have me: "map f xs = map f ys"
    using assms(1,3,4) dx by (intro sorted_distinct_set_unique) 
  have "set xs = set ys" using assms(2) by (rule mset_eq_setD)
  moreover have "inj_on f (set ys)" using assms(4) by (simp add: distinct_map)
  ultimately have "inj_on f (set xs \<union> set ys)" by simp
  then show ?thesis using me by (simp add: inj_on_map_eq_map)
qed

text \<open>
  Three \<open>chat:message\<close> events handled one after the other,
  each stored, from sessions of the same room, which had no message before. Every
  socket in the channel of the room receives the three broadcasts in the order of
  sending. A history fetch returns the three messages in an order in which \<open>sent_at\<close>
  does not decrease; \<open>sent_at\<close> is the clock of the store to the second. The order of
  sending is one of the admitted answers when the clock did not go back, and it is the
  only one when the three messages were stored in three different, increasing seconds.
\<close>

lemma sequential_sends_order:
  assumes st1: "st1 = chat_message xss st n1 a1 p1"
    and st2: "st2 = chat_message xss st1 n2 a2 p2"
    and st3: "st3 = chat_message xss st2 n3 a3 p3"
    and m1: "messages (db st1) = messages (db st) @ [m1]"
    and m2: "messages (db st2) = messages (db st1) @ [m2]"
    and m3: "messages (db st3) = messages (db st2) @ [m3]"
    and a1: "currentRoom (sockets st a1) = Some code \<and> roomId (sockets st a1) = Some rid"
    and a2: "currentRoom (sockets st a2) = Some code \<and> roomId (sockets st a2) = Some rid"
    and a3: "currentRoom (sockets st a3) = Some code \<and> roomId (sockets st a3) = Some rid"
    and fresh: "\<forall>m \<in> set (messages (db st)). room_id m \<noteq> rid"
  shows "(\<forall>s. s |\<in>| channels st code \<longrightarrow>
            delivered st3 s = delivered st s @ [event_of m1 n1, event_of m2 n2, event_of m3 n3])
       \<and> (\<forall>rows. Message_findByRoomId (db st3) rid rows \<longrightarrow>
            mset rows = {#m1, m2, m3#} \<and> sorted (map sent_at rows))
       \<and> (n1 div 1000 \<le> n2 div 1000 \<and> n2 div 1000 \<le> n3 div 1000 \<longrightarrow>
            Message_findByRoomId (db st3) rid [m1, m2, m3])
       \<and> (n1 div 1000 < n2 div 1000 \<and> n2 div 1000 < n3 div 1000 \<longrightarrow>
            (\<forall>rows. Message_findByRoomId (db st3) rid rows \<longrightarrow> rows = [m1, m2, m3]))"
proof -
  note P1 = chat_message_persisted [OF m1 [unfolded st1] a1 [THEN conjunct1] a1 [THEN conjunct2],
      folded st1]
  have s1: "sockets st1 = sockets st" and c1: "channels st1 = channels st"
    and t1: "session_tz (db st1) = session_tz (db st)"
    using P1 by simp_all
  note P2 = chat_message_persisted [OF m2 [unfolded st2] a2 [folded s1, THEN conjunct1]
      a2 [folded s1, THEN conjunct2], folded st2]
  have s2: "sockets st2 = sockets st" and c2: "channels st2 = channels st"
    and t2: "session_tz (db st2) = session_tz (db st)"
    using P2 by (simp_all add: s1 c1 t1)
  note P3 = chat_message_persisted [OF m3 [unfolded st3] a3 [folded s2, THEN conjunct1]
      a3 [folded s2, THEN conjunct2], folded st3]
  have r: "room_id m1 = rid" "room_id m2 = rid" "room_id m3 = rid"
    using P1 P2 P3 by simp_all
  have t: "sent_at m1 = n1 div 1000 + session_tz (db st)"
    "sent_at m2 = n2 div 1000 + session_tz (db st)"
    "sent_at m3 = n3 div 1000 + session_tz (db st)"
    using P1 P2 P3 by (simp_all add: NOW_def t1 t2)
  have live: "\<forall>s. s |\<in>| channels st code \<longrightarrow>
            delivered st3 s = delivered st s @ [event_of m1 n1, event_of m2 n2, event_of m3 n3]"
    using P1 P2 P3 by (simp add: c1 c2)
  have all: "messages (db st3) = messages (db st) @ [m1, m2, m3]"
    by (simp add: m1 m2 m3)
  have none: "filter (\<lambda>m. room_id m = rid) (messages (db st)) = []"
    using fresh by (simp add: filter_empty_conv)
  have flt: "filter (\<lambda>m. room_id m = rid) (messages (db st3)) = [m1, m2, m3]"
    by (simp add: all none r)
  have admits: "Message_findByRoomId (db st3) rid rows
                  \<longleftrightarrow> mset rows = {#m1, m2, m3#} \<and> sorted (map sent_at rows)" for rows
    by (simp add: Message_findByRoomId_def flt add_mset_commute)
  have possible: "Message_findByRoomId (db st3) rid [m1, m2, m3]"
    if "n1 div 1000 \<le> n2 div 1000 \<and> n2 div 1000 \<le> n3 div 1000"
    using that by (simp add: admits t add_mset_commute)
  have exact: "rows = [m1, m2, m3]"
    if lt: "n1 div 1000 < n2 div 1000 \<and> n2 div 1000 < n3 div 1000"
      and ad: "Message_findByRoomId (db st3) rid rows" for rows
  proof (rule sorted_by_key_unique [where f = sent_at])
    show "sorted (map sent_at rows)" using ad by (simp add: admits)
    show "mset rows = mset [m1, m2, m3]" using ad by (simp add: admits add_mset_commute)
    show "sorted (map sent_at [m1, m2, m3])" using lt by (simp add: t)
    show "distinct (map sent_at [m1, m2, m3])" using lt by (simp add: t)
  qed
  show ?thesis
    using live admits possible exact by blast
qed

lemma server_group_fields:
  "messages (db server_group) = [msg_a]"
  "currentRoom (sockets server_group ''s1'') = Some ''ZZ99ZZ''"
  "roomId (sockets server_group ''s1'') = Some 2"
  "currentRoom (sockets server_group ''s2'') = Some ''ZZ99ZZ''"
  "roomId (sockets server_group ''s2'') = Some 2"
  "channels server_group ''ZZ99ZZ'' = {|''s1'', ''s2''|}"
  "delivered server_group s = []"
  by (simp_all add: server_group_def store_utc_def)

text \<open>
  C7 fails on the code. At the sample server \<open>s1\<close> sends \<open>m1\<close>, then \<open>s2\<close> sends \<open>m2\<close>,
  then \<open>s1\<close> sends \<open>m3\<close>, at 100, 200 and 300 milliseconds into the same second, each
  handled and stored before the next. The three rows are stored in that order, with ids
  2, 3 and 4, and all three get the same \<open>sent_at\<close>: the column holds whole seconds.
  \<open>ORDER BY sent_at ASC\<close>, which has no second key, admits the answer \<open>m2, m1, m3\<close>
  for the history of the room, which is not the order of sending.
\<close>

theorem history_order_not_fixed_within_a_second:
  "messages (db (three_sends 5000100 5000200 5000300))
     = [msg_a, sample_msg 2 ''ann'' ''m1'' 5000, sample_msg 3 ''bob'' ''m2'' 5000,
        sample_msg 4 ''ann'' ''m3'' 5000]
   \<and> delivered (three_sends 5000100 5000200 5000300) ''s2''
       = [ChatMessage 2 ''ann'' ''m1'' ''v'' 5000100, ChatMessage 3 ''bob'' ''m2'' ''v'' 5000200,
          ChatMessage 4 ''ann'' ''m3'' ''v'' 5000300]
   \<and> map sent_at [sample_msg 2 ''ann'' ''m1'' 5000, sample_msg 3 ''bob'' ''m2'' 5000,
        sample_msg 4 ''ann'' ''m3'' 5000] = [5000, 5000, 5000]
   \<and> Message_findByRoomId (db (three_sends 5000100 5000200 5000300)) 2
        [sample_msg 3 ''bob'' ''m2'' 5000, sample_msg 2 ''ann'' ''m1'' 5000,
         sample_msg 4 ''ann'' ''m3'' 5000]
   \<and> [sample_msg 3 ''bob'' ''m2'' 5000, sample_msg 2 ''ann'' ''m1'' 5000,
        sample_msg 4 ''ann'' ''m3'' 5000]
       \<noteq> [sample_msg 2 ''ann'' ''m1'' 5000, sample_msg 3 ''bob'' ''m2'' 5000,
          sample_msg 4 ''ann'' ''m3'' 5000]"
proof -
  have d: "db (three_sends 5000100 5000200 5000300)
     = store_utc\<lparr>messages := [msg_a, sample_msg 2 ''ann'' ''m1'' 5000,
                                sample_msg 3 ''bob'' ''m2'' 5000,
                                sample_msg 4 ''ann'' ''m3'' 5000],
                 next_message_id := 5\<rparr>"
    using three_sends_result [of 5000100 5000200 5000300] by simp
  have r: "room_id msg_a = 1" "room_id (sample_msg i nk c t) = 2"
    "sent_at (sample_msg i nk c t) = t" for i nk c t
    by (simp_all add: msg_a_def sample_msg_def)
  have ne: "sample_msg 3 ''bob'' ''m2'' 5000 \<noteq> sample_msg 2 ''ann'' ''m1'' 5000"
    by (simp add: sample_msg_def)
  have e: "delivered (three_sends 5000100 5000200 5000300) ''s2''
       = [ChatMessage 2 ''ann'' ''m1'' ''v'' 5000100, ChatMessage 3 ''bob'' ''m2'' ''v'' 5000200,
          ChatMessage 4 ''ann'' ''m3'' ''v'' 5000300]"
    using three_sends_result [of 5000100 5000200 5000300] by blast
  show ?thesis
    by (simp add: d e Message_findByRoomId_def r ne add_mset_commute)
qed

text \<open>
  At the sample server, with the three messages sent in three successive seconds: \<open>s2\<close>
  receives the three broadcasts in the order of sending, the history \<open>m1, m2, m3\<close> is
  admitted and the history \<open>m2, m1, m3\<close> is not.
\<close>

lemma sequential_sends_order_sample:
  "one_send 5000100 = chat_message no_filter server_group 5000100 ''s1'' (payload_of ''m1'')
   \<and> two_sends 5000100 5001200
       = chat_message no_filter (one_send 5000100) 5001200 ''s2'' (payload_of ''m2'')
   \<and> three_sends 5000100 5001200 5002300
       = chat_message no_filter (two_sends 5000100 5001200) 5002300 ''s1'' (payload_of ''m3'')
   \<and> messages (db (one_send 5000100))
       = messages (db server_group) @ [sample_msg 2 ''ann'' ''m1'' 5000]
   \<and> messages (db (two_sends 5000100 5001200))
       = messages (db (one_send 5000100)) @ [sample_msg 3 ''bob'' ''m2'' 5001]
   \<and> messages (db (three_sends 5000100 5001200 5002300))
       = messages (db (two_sends 5000100 5001200)) @ [sample_msg 4 ''ann'' ''m3'' 5002]
   \<and> currentRoom (sockets server_group ''s1'') = Some ''ZZ99ZZ''
   \<and> roomId (sockets server_group ''s1'') = Some 2
   \<and> currentRoom (sockets server_group ''s2'') = Some ''ZZ99ZZ''
   \<and> roomId (sockets server_group ''s2'') = Some 2
   \<and> messages (db server_group) = [msg_a] \<and> room_id msg_a \<noteq> 2
   \<and> ''s2'' |\<in>| channels server_group ''ZZ99ZZ''
   \<and> delivered (three_sends 5000100 5001200 5002300) ''s2''
       = [event_of (sample_msg 2 ''ann'' ''m1'' 5000) 5000100,
          event_of (sample_msg 3 ''bob'' ''m2'' 5001) 5001200,
          event_of (sample_msg 4 ''ann'' ''m3'' 5002) 5002300]
   \<and> Message_findByRoomId (db (three_sends 5000100 5001200 5002300)) 2
        [sample_msg 2 ''ann'' ''m1'' 5000, sample_msg 3 ''bob'' ''m2'' 5001,
         sample_msg 4 ''ann'' ''m3'' 5002]
   \<and> \<not> Message_findByRoomId (db (three_sends 5000100 5001200 5002300)) 2
        [sample_msg 3 ''bob'' ''m2'' 5001, sample_msg 2 ''ann'' ''m1'' 5000,
         sample_msg 4 ''ann'' ''m3'' 5002]"
proof -
  note R = three_sends_result [of 5000100 5001200 5002300]
  have 1: "one_send 5000100 = chat_message no_filter server_group 5000100 ''s1'' (payload_of ''m1'')"
    by (rule one_send_def)
  have 2: "two_sends 5000100 5001200
       = chat_message no_filter (one_send 5000100) 5001200 ''s2'' (payload_of ''m2'')"
    by (rule two_sends_def)
  have 3: "three_sends 5000100 5001200 5002300
       = chat_message no_filter (two_sends 5000100 5001200) 5002300 ''s1'' (payload_of ''m3'')"
    by (rule three_sends_def)
  have 4: "messages (db (one_send 5000100))
       = messages (db server_group) @ [sample_msg 2 ''ann'' ''m1'' 5000]"
    using R by (simp add: server_group_fields)
  have 5: "messages (db (two_sends 5000100 5001200))
       = messages (db (one_send 5000100)) @ [sample_msg 3 ''bob'' ''m2'' 5001]"
    using R by simp
  have 6: "messages (db (three_sends 5000100 5001200 5002300))
       = messages (db (two_sends 5000100 5001200)) @ [sample_msg 4 ''ann'' ''m3'' 5002]"
    using R by simp
  have 7: "currentRoom (sockets server_group ''s1'') = Some ''ZZ99ZZ''
           \<and> roomId (sockets server_group ''s1'') = Some 2"
    by (simp add: server_group_fields)
  have 8: "currentRoom (sockets server_group ''s2'') = Some ''ZZ99ZZ''
           \<and> roomId (sockets server_group ''s2'') = Some 2"
    by (simp add: server_group_fields)
  have 9: "\<forall>m \<in> set (messages (db server_group)). room_id m \<noteq> 2"
    by (simp add: server_group_fields msg_a_def)
  note T = sequential_sends_order [OF 1 2 3 4 5 6 7 8 7 9]
  have 10: "''s2'' |\<in>| channels server_group ''ZZ99ZZ''"
    by (simp add: server_group_fields)
  have 11: "delivered (three_sends 5000100 5001200 5002300) ''s2''
       = delivered server_group ''s2''
         @ [event_of (sample_msg 2 ''ann'' ''m1'' 5000) 5000100,
            event_of (sample_msg 3 ''bob'' ''m2'' 5001) 5001200,
            event_of (sample_msg 4 ''ann'' ''m3'' 5002) 5002300]"
    using T 10 by blast
  have lt: "(5000100::int) div 1000 < 5001200 div 1000 \<and> (5001200::int) div 1000 < 5002300 div 1000"
    by simp
  have le: "(5000100::int) div 1000 \<le> 5001200 div 1000 \<and> (5001200::int) div 1000 \<le> 5002300 div 1000"
    by simp
  have 12: "Message_findByRoomId (db (three_sends 5000100 5001200 5002300)) 2
        [sample_msg 2 ''ann'' ''m1'' 5000, sample_msg 3 ''bob'' ''m2'' 5001,
         sample_msg 4 ''ann'' ''m3'' 5002]"
    using T le by blast
  have ne: "[sample_msg 3 ''bob'' ''m2'' 5001, sample_msg 2 ''ann'' ''m1'' 5000,
         sample_msg 4 ''ann'' ''m3'' 5002]
        \<noteq> [sample_msg 2 ''ann'' ''m1'' 5000, sample_msg 3 ''bob'' ''m2'' 5001,
         sample_msg 4 ''ann'' ''m3'' 5002]"
    by (simp add: sample_msg_def)
  have 13: "\<not> Message_findByRoomId (db (three_sends 5000100 5001200 5002300)) 2
        [sample_msg 3 ''bob'' ''m2'' 5001, sample_msg 2 ''ann'' ''m1'' 5000,
         sample_msg 4 ''ann'' ''m3'' 5002]"
    using T lt ne by blast
  have 14: "room_id msg_a \<noteq> 2" by (simp add: msg_a_def)
  show ?thesis
    using 1 2 3 4 5 6 7 8 10 11 12 13 14 by (simp add: server_group_fields)
qed

end
